theory Spec2Isabelle
  imports Main "HOL-Library.Word"
begin

unbundle bit_operations_syntax

section \<open>The type fingerprint cache of \<^verbatim>\<open>numba/_typeof.c\<close>\<close>

text \<open>
  The development embeds \<^verbatim>\<open>src/numba/_typeof.c\<close>: the string writer, the fingerprint
  encoder, the fingerprint hash table and the direct lookup table for arrays. The C
  code works on memory through pointers, and two of its properties depend on which
  memory a pointer designates, so memory is explicit: a store of
  \<^verbatim>\<open>string_writer_t\<close> structs indexed by their addresses, and a store of the byte
  blocks handed out by \<^verbatim>\<open>malloc\<close>. Integers have their C width wherever bits are
  taken from them. The platform is the common LP64 one: \<^verbatim>\<open>size_t\<close>, \<^verbatim>\<open>npy_intp\<close> and
  \<^verbatim>\<open>Py_uhash_t\<close> have 64 bits, \<^verbatim>\<open>int\<close> has 32 and plain \<^verbatim>\<open>char\<close> is signed.
\<close>

type_synonym byte = "8 word"
type_synonym addr = nat

subsection \<open>Host values\<close>

text \<open>
  The encoder sees a Python object through the host's checks only
  (\<^verbatim>\<open>PyBool_Check\<close>, \<^verbatim>\<open>PyTuple_Check\<close>, ...) and through the accessors of numpy
  and of the buffer protocol. A host value is what those report.
\<close>

text \<open>
  A numpy dtype (\<^verbatim>\<open>PyArray_Descr\<close>): its \<^verbatim>\<open>type_num\<close>, the address of the descr
  object, whether its byte order is the machine's, and for a datetime or timedelta
  dtype the unit and the multiplier of its metadata (\<^verbatim>\<open>md->base\<close>, \<^verbatim>\<open>md->num\<close>,
  both \<^verbatim>\<open>int\<close>).
\<close>

record descr =
  type_num :: int
  descr_address :: "64 word"
  native_byteorder :: bool
  md_base :: int
  md_num :: int

text \<open>The flags and fields of a \<^verbatim>\<open>PyArrayObject\<close> that the file reads.\<close>

record pyarray =
  ary_ndim :: int
  c_contiguous :: bool
  f_contiguous :: bool
  aligned :: bool
  writeable :: bool
  ary_descr :: descr

text \<open>A view obtained through the buffer protocol (\<^verbatim>\<open>Py_buffer\<close>).\<close>

record py_buffer =
  buf_ndim :: int
  buf_c_contiguous :: bool
  buf_f_contiguous :: bool
  readonly :: bool
  format :: "byte list option"

text \<open>
  A numpy scalar type may inherit from a builtin Python type (\<^verbatim>\<open>numpy.float64\<close>
  from \<^verbatim>\<open>float\<close>, \<^verbatim>\<open>numpy.bytes_\<close> from \<^verbatim>\<open>bytes\<close>), and then passes that
  type's check.
\<close>

datatype builtin_base = No_base | Int_base | Float_base | Bytes_base

text \<open>
  The kinds of host value. A numpy scalar carries what \<^verbatim>\<open>PyArray_DescrFromScalar\<close>
  returns for it (\<open>None\<close> for \<^verbatim>\<open>NULL\<close>). A buffer exporter carries the view it
  gives when a writable one is requested and the view it gives otherwise (\<open>None\<close>
  when \<^verbatim>\<open>PyObject_GetBuffer\<close> fails), and the address of its Python type.
\<close>

datatype pyobject =
    VNone
  | VBool
  | VInt
  | VFloat
  | VComplex
  | VTuple "pyobject list"
  | VBytes
  | VByteArray
  | VNpScalar builtin_base "descr option"
  | VArray pyarray
  | VBuffer "py_buffer option" "py_buffer option" "64 word"
  | VDtype descr
  | VOpaque

subsection \<open>Memory\<close>

text \<open>
  A \<^verbatim>\<open>char *\<close> held in the \<^verbatim>\<open>buf\<close> field: null, the \<^verbatim>\<open>static_buf\<close> array
  inside the \<^verbatim>\<open>string_writer_t\<close> that lives at the given address, or a block
  handed out by the allocator.
\<close>

datatype ptr = Null | Static_buf addr | Heap_block addr

record string_writer_t =
  buf :: ptr
  n :: nat
  allocated :: nat
  static_buf :: "byte list"

text \<open>
  What the allocator answers to one request: it refuses (a null pointer), or it
  grants memory at an address, whose cells hold the given residual bytes.
  \<^verbatim>\<open>malloc\<close> does not initialise what it returns.
\<close>

datatype alloc_answer = Refuse | Grant addr "byte list"

datatype error = NotImplementedError | MemoryError | HostError | BufferOverrun

text \<open>
  An entry of the fingerprint hash table holds the hash computed when the key was
  inserted, the pointer to the key (a \<^verbatim>\<open>string_writer_t *\<close>) and the typecode.
\<close>

record entry =
  key_hash :: "64 word"
  key :: addr
  data :: int

text \<open>
  The state of the process as far as the file sees it: the memory, the answers the
  allocator will give to the coming requests, the two static caches, and the log of
  the calls made to the resolver (the dispatcher's \<^verbatim>\<open>typeof_pyval\<close>): the value, and
  whether the reference to the type object it returned was retained.
\<close>

record world =
  writers :: "addr \<Rightarrow> string_writer_t"
  heap :: "addr \<Rightarrow> byte list"
  allocator :: "alloc_answer list"
  fingerprint_hashtable :: "entry list option"
  cached_arycode :: "nat \<times> nat \<times> nat \<Rightarrow> int"
  resolver_calls :: "(pyobject \<times> bool) list"

text \<open>An array of \<open>k\<close> cells holding residual bytes: exactly \<open>k\<close> of them.\<close>

definition cells :: "nat \<Rightarrow> byte list \<Rightarrow> byte list" where
  "cells k junk = take k (junk @ replicate k 0)"

text \<open>The bytes a pointer designates, in the current memory.\<close>

fun load :: "world \<Rightarrow> ptr \<Rightarrow> byte list" where
  "load s Null = []"
| "load s (Static_buf a) = static_buf (writers s a)"
| "load s (Heap_block b) = heap s b"

text \<open>
  \<^verbatim>\<open>memcpy(p + i, bs, length bs)\<close>, and the single store \<^verbatim>\<open>p[i] = c\<close> as its
  one-byte case. A store past the end of the designated array has no defined
  behaviour in C; the model stops with \<open>BufferOverrun\<close>.
\<close>

fun poke :: "ptr \<Rightarrow> nat \<Rightarrow> byte list \<Rightarrow> world \<Rightarrow> error + world" where
  "poke Null i bs s = Inl BufferOverrun"
| "poke (Static_buf a) i bs s =
     (let old = static_buf (writers s a) in
      if i + length bs \<le> length old
      then Inr (s\<lparr>writers := (writers s)
                  (a := (writers s a)\<lparr>static_buf := take i old @ bs @ drop (i + length bs) old\<rparr>)\<rparr>)
      else Inl BufferOverrun)"
| "poke (Heap_block b) i bs s =
     (let old = heap s b in
      if i + length bs \<le> length old
      then Inr (s\<lparr>heap := (heap s)(b := take i old @ bs @ drop (i + length bs) old)\<rparr>)
      else Inl BufferOverrun)"

text \<open>
  \<^verbatim>\<open>malloc(size)\<close> takes the allocator's next answer. A granted block has as
  many cells as were asked for, with residual contents. An allocator with no answer
  left refuses.
\<close>

definition malloc :: "nat \<Rightarrow> world \<Rightarrow> ptr \<times> world" where
  "malloc sz s =
     (case allocator s of
        [] \<Rightarrow> (Null, s)
      | Refuse # rest \<Rightarrow> (Null, s\<lparr>allocator := rest\<rparr>)
      | Grant b junk # rest \<Rightarrow>
          (Heap_block b, s\<lparr>allocator := rest, heap := (heap s)(b := cells sz junk)\<rparr>))"

text \<open>
  \<^verbatim>\<open>realloc(p, size)\<close>: the new block starts with the bytes of the old one (as many
  as fit), the rest is residual. The old block is released when the call succeeds
  and untouched when it fails.
\<close>

definition realloc :: "ptr \<Rightarrow> nat \<Rightarrow> world \<Rightarrow> ptr \<times> world" where
  "realloc p sz s =
     (case allocator s of
        [] \<Rightarrow> (Null, s)
      | Refuse # rest \<Rightarrow> (Null, s\<lparr>allocator := rest\<rparr>)
      | Grant b junk # rest \<Rightarrow>
          (let old = load s p;
               s1 = (case p of Heap_block a \<Rightarrow> s\<lparr>heap := (heap s)(a := [])\<rparr> | _ \<Rightarrow> s)
           in (Heap_block b,
               s1\<lparr>allocator := rest,
                  heap := (heap s1)(b := take sz old @ cells (sz - length old) junk)\<rparr>)))"

text \<open>\<^verbatim>\<open>free(p)\<close>: the block has no cell left to read or write.\<close>

fun free :: "ptr \<Rightarrow> world \<Rightarrow> world" where
  "free (Heap_block b) s = s\<lparr>heap := (heap s)(b := [])\<rparr>"
| "free p s = s"

subsection \<open>The string writer\<close>

text \<open>
  Every function takes the address \<open>w\<close> of the writer, as the C functions take a
  \<^verbatim>\<open>string_writer_t *\<close>. A function that returns \<^verbatim>\<open>int\<close> 0 or -1 returns
  \<open>Inr ()\<close> or \<open>Inl e\<close>, \<open>e\<close> being the Python exception it has set.
\<close>

text \<open>
  \<^verbatim>\<open>string_writer_init\<close> writes the three scalar fields. \<^verbatim>\<open>static_buf\<close> keeps
  what the memory held: its 40 cells are not initialised.
\<close>

definition string_writer_init :: "addr \<Rightarrow> world \<Rightarrow> world" where
  "string_writer_init w s =
     s\<lparr>writers := (writers s)
        (w := \<lparr>buf = Static_buf w, n = 0, allocated = 40,
               static_buf = cells 40 (static_buf (writers s w))\<rparr>)\<rparr>"

definition string_writer_clear :: "addr \<Rightarrow> world \<Rightarrow> world" where
  "string_writer_clear w s =
     (if buf (writers s w) \<noteq> Static_buf w then free (buf (writers s w)) s else s)"

text \<open>
  \<^verbatim>\<open>string_writer_ensure\<close>, as the source has it: the new block is not given the
  bytes already written when it replaces \<^verbatim>\<open>static_buf\<close>, and \<^verbatim>\<open>allocated\<close> is
  left as it was. The sizes are those of objects in memory, far below the range of
  \<^verbatim>\<open>size_t\<close>, so the sums are written without the wrap-around.
\<close>

definition string_writer_ensure :: "addr \<Rightarrow> nat \<Rightarrow> world \<Rightarrow> (error + unit) \<times> world" where
  "string_writer_ensure w bytes s =
     (if n (writers s w) + bytes \<le> allocated (writers s w) then (Inr (), s)
      else
        let newsize = allocated (writers s w) * 4 + 1;
            (p, s1) = (if buf (writers s w) = Static_buf w then malloc newsize s
                       else realloc (buf (writers s w)) newsize s);
            s2 = s1\<lparr>writers := (writers s1)(w := (writers s1 w)\<lparr>buf := p\<rparr>)\<rparr>
        in if p = Null then (Inl MemoryError, s2) else (Inr (), s2))"

text \<open>
  The macro \<^verbatim>\<open>TRY(func, w, arg)\<close>: run the call, return -1 at once when it
  fails, go on otherwise.
\<close>

definition TRY ::
  "(world \<Rightarrow> (error + unit) \<times> world) \<Rightarrow> (world \<Rightarrow> (error + 'a) \<times> world)
     \<Rightarrow> world \<Rightarrow> (error + 'a) \<times> world" where
  "TRY m k s = (case m s of (Inl e, s1) \<Rightarrow> (Inl e, s1) | (Inr u, s1) \<Rightarrow> k s1)"

text \<open>
  The common tail of the \<^verbatim>\<open>put\<close> functions: store the bytes at \<^verbatim>\<open>w->buf + w->n\<close>
  and advance \<^verbatim>\<open>w->n\<close>.
\<close>

definition put_bytes :: "addr \<Rightarrow> byte list \<Rightarrow> world \<Rightarrow> (error + unit) \<times> world" where
  "put_bytes w bs s =
     (case poke (buf (writers s w)) (n (writers s w)) bs s of
        Inl e \<Rightarrow> (Inl e, s)
      | Inr s1 \<Rightarrow>
          (Inr (), s1\<lparr>writers := (writers s1)
                        (w := (writers s1 w)\<lparr>n := n (writers s1 w) + length bs\<rparr>)\<rparr>))"

definition string_writer_put_char :: "addr \<Rightarrow> byte \<Rightarrow> world \<Rightarrow> (error + unit) \<times> world" where
  "string_writer_put_char w c = TRY (string_writer_ensure w 1) (put_bytes w [c])"

definition string_writer_put_int32 :: "addr \<Rightarrow> 32 word \<Rightarrow> world \<Rightarrow> (error + unit) \<times> world" where
  "string_writer_put_int32 w v =
     TRY (string_writer_ensure w 4)
       (put_bytes w [ucast (v AND 0xff),
                     ucast (drop_bit 8 v AND 0xff),
                     ucast (drop_bit 16 v AND 0xff),
                     ucast (drop_bit 24 v AND 0xff)])"

text \<open>\<^verbatim>\<open>sizeof(npy_intp)\<close> is 8 here, so the branch \<^verbatim>\<open>N > 4\<close> is taken.\<close>

definition string_writer_put_intp :: "addr \<Rightarrow> 64 word \<Rightarrow> world \<Rightarrow> (error + unit) \<times> world" where
  "string_writer_put_intp w v =
     TRY (string_writer_ensure w 8)
       (put_bytes w [ucast (v AND 0xff),
                     ucast (drop_bit 8 v AND 0xff),
                     ucast (drop_bit 16 v AND 0xff),
                     ucast (drop_bit 24 v AND 0xff),
                     ucast (drop_bit 32 v AND 0xff),
                     ucast (drop_bit 40 v AND 0xff),
                     ucast (drop_bit 48 v AND 0xff),
                     ucast (drop_bit 56 v AND 0xff)])"

text \<open>A C string is its bytes before the terminating zero; \<open>None\<close> is \<^verbatim>\<open>NULL\<close>.\<close>

definition string_writer_put_string ::
  "addr \<Rightarrow> byte list option \<Rightarrow> world \<Rightarrow> (error + unit) \<times> world" where
  "string_writer_put_string w str =
     (case str of
        None \<Rightarrow> string_writer_put_char w 0
      | Some cs \<Rightarrow> TRY (string_writer_ensure w (length cs + 1)) (put_bytes w (cs @ [0])))"

subsection \<open>Host checks and numpy constants\<close>

text \<open>
  The checks in the order the encoder applies them. \<^verbatim>\<open>bool\<close> is a subtype of the
  host integer type, so a boolean passes the integer check too; \<^verbatim>\<open>PyInt_Check\<close>
  and \<^verbatim>\<open>PyLong_Check\<close> are one check on the integer type. The buffer check is the
  one for the exporters that no earlier check has taken.
\<close>

fun PyBool_Check :: "pyobject \<Rightarrow> bool" where
  "PyBool_Check VBool = True"
| "PyBool_Check v = False"

fun PyInt_Check :: "pyobject \<Rightarrow> bool" where
  "PyInt_Check VInt = True"
| "PyInt_Check VBool = True"
| "PyInt_Check (VNpScalar base d) = (base = Int_base)"
| "PyInt_Check v = False"

definition PyLong_Check :: "pyobject \<Rightarrow> bool" where
  "PyLong_Check v = PyInt_Check v"

fun PyFloat_Check :: "pyobject \<Rightarrow> bool" where
  "PyFloat_Check VFloat = True"
| "PyFloat_Check (VNpScalar base d) = (base = Float_base)"
| "PyFloat_Check v = False"

fun PyComplex_CheckExact :: "pyobject \<Rightarrow> bool" where
  "PyComplex_CheckExact VComplex = True"
| "PyComplex_CheckExact v = False"

fun PyTuple_Check :: "pyobject \<Rightarrow> bool" where
  "PyTuple_Check (VTuple items) = True"
| "PyTuple_Check v = False"

text \<open>\<^verbatim>\<open>PyTuple_GET_ITEM(val, i)\<close> for \<open>i\<close> from 0 below \<^verbatim>\<open>PyTuple_GET_SIZE(val)\<close>.\<close>

fun PyTuple_items :: "pyobject \<Rightarrow> pyobject list" where
  "PyTuple_items (VTuple items) = items"
| "PyTuple_items v = []"

fun PyBytes_Check :: "pyobject \<Rightarrow> bool" where
  "PyBytes_Check VBytes = True"
| "PyBytes_Check (VNpScalar base d) = (base = Bytes_base)"
| "PyBytes_Check v = False"

fun PyByteArray_Check :: "pyobject \<Rightarrow> bool" where
  "PyByteArray_Check VByteArray = True"
| "PyByteArray_Check v = False"

fun PyArray_IsScalar_Generic :: "pyobject \<Rightarrow> bool" where
  "PyArray_IsScalar_Generic (VNpScalar base d) = True"
| "PyArray_IsScalar_Generic v = False"

fun PyArray_DescrFromScalar :: "pyobject \<Rightarrow> descr option" where
  "PyArray_DescrFromScalar (VNpScalar base d) = d"
| "PyArray_DescrFromScalar v = None"

text \<open>
  \<^verbatim>\<open>PyArray_Check(val)\<close> and \<^verbatim>\<open>PyType_IsSubtype(Py_TYPE(val), &PyArray_Type)\<close>
  are the same test.
\<close>

fun PyArray_Check :: "pyobject \<Rightarrow> bool" where
  "PyArray_Check (VArray ary) = True"
| "PyArray_Check v = False"

fun PyObject_CheckBuffer :: "pyobject \<Rightarrow> bool" where
  "PyObject_CheckBuffer (VBuffer wv rv ty) = True"
| "PyObject_CheckBuffer v = False"

text \<open>
  \<^verbatim>\<open>PyObject_GetBuffer(val, &buf, flags)\<close>; the boolean says whether \<open>flags\<close>
  holds \<^verbatim>\<open>PyBUF_WRITABLE\<close>.
\<close>

fun PyObject_GetBuffer :: "pyobject \<Rightarrow> bool \<Rightarrow> py_buffer option" where
  "PyObject_GetBuffer (VBuffer wv rv ty) writable = (if writable then wv else rv)"
| "PyObject_GetBuffer v writable = None"

fun Py_TYPE :: "pyobject \<Rightarrow> 64 word" where
  "Py_TYPE (VBuffer wv rv ty) = ty"
| "Py_TYPE v = 0"

fun PyArray_DescrCheck :: "pyobject \<Rightarrow> bool" where
  "PyArray_DescrCheck (VDtype d) = True"
| "PyArray_DescrCheck v = False"

text \<open>
  numpy's type numbers (\<^verbatim>\<open>enum NPY_TYPES\<close>), with the sized aliases as an LP64
  platform has them, and the flag tests of \<^verbatim>\<open>ndarraytypes.h\<close>:
  \<^verbatim>\<open>NPY_ARRAY_CARRAY\<close> is \<^verbatim>\<open>C_CONTIGUOUS | ALIGNED | WRITEABLE\<close>,
  \<^verbatim>\<open>NPY_ARRAY_FARRAY\<close> is \<^verbatim>\<open>F_CONTIGUOUS | ALIGNED | WRITEABLE\<close>, and
  \<^verbatim>\<open>PyArray_ISCARRAY\<close>, \<^verbatim>\<open>PyArray_ISFARRAY\<close> ask for these flags and for the
  machine's byte order.
\<close>

definition NPY_INT8 :: int where "NPY_INT8 = 1"
definition NPY_UINT8 :: int where "NPY_UINT8 = 2"
definition NPY_INT16 :: int where "NPY_INT16 = 3"
definition NPY_UINT16 :: int where "NPY_UINT16 = 4"
definition NPY_INT32 :: int where "NPY_INT32 = 5"
definition NPY_UINT32 :: int where "NPY_UINT32 = 6"
definition NPY_INT64 :: int where "NPY_INT64 = 7"
definition NPY_UINT64 :: int where "NPY_UINT64 = 8"
definition NPY_FLOAT32 :: int where "NPY_FLOAT32 = 11"
definition NPY_FLOAT64 :: int where "NPY_FLOAT64 = 12"
definition NPY_COMPLEX64 :: int where "NPY_COMPLEX64 = 14"
definition NPY_COMPLEX128 :: int where "NPY_COMPLEX128 = 15"
definition NPY_OBJECT :: int where "NPY_OBJECT = 17"
definition NPY_VOID :: int where "NPY_VOID = 20"
definition NPY_DATETIME :: int where "NPY_DATETIME = 21"
definition NPY_TIMEDELTA :: int where "NPY_TIMEDELTA = 22"

definition PyTypeNum_ISDATETIME :: "int \<Rightarrow> bool" where
  "PyTypeNum_ISDATETIME t = (NPY_DATETIME \<le> t \<and> t \<le> NPY_TIMEDELTA)"

definition PyArray_IS_C_CONTIGUOUS :: "pyarray \<Rightarrow> bool" where
  "PyArray_IS_C_CONTIGUOUS ary = c_contiguous ary"

definition PyArray_IS_F_CONTIGUOUS :: "pyarray \<Rightarrow> bool" where
  "PyArray_IS_F_CONTIGUOUS ary = f_contiguous ary"

definition PyArray_ISWRITEABLE :: "pyarray \<Rightarrow> bool" where
  "PyArray_ISWRITEABLE ary = writeable ary"

definition PyArray_ISCARRAY :: "pyarray \<Rightarrow> bool" where
  "PyArray_ISCARRAY ary =
     ((c_contiguous ary \<and> aligned ary \<and> writeable ary) \<and> native_byteorder (ary_descr ary))"

definition PyArray_ISFARRAY :: "pyarray \<Rightarrow> bool" where
  "PyArray_ISFARRAY ary =
     ((f_contiguous ary \<and> aligned ary \<and> writeable ary) \<and> native_byteorder (ary_descr ary))"

definition PyArray_TYPE :: "pyarray \<Rightarrow> int" where
  "PyArray_TYPE ary = type_num (ary_descr ary)"

subsection \<open>The fingerprint encoder\<close>

text \<open>
  \<^verbatim>\<open>enum opcode\<close>: the character codes of
  \<^verbatim>\<open>( ) i f c ? a b n B S A D\<close>, in the order of the source.
\<close>

definition OP_START_TUPLE :: byte where "OP_START_TUPLE = 40"
definition OP_END_TUPLE :: byte where "OP_END_TUPLE = 41"
definition OP_INT :: byte where "OP_INT = 105"
definition OP_FLOAT :: byte where "OP_FLOAT = 102"
definition OP_COMPLEX :: byte where "OP_COMPLEX = 99"
definition OP_BOOL :: byte where "OP_BOOL = 63"
definition OP_BYTEARRAY :: byte where "OP_BYTEARRAY = 97"
definition OP_BYTES :: byte where "OP_BYTES = 98"
definition OP_NONE :: byte where "OP_NONE = 110"
definition OP_BUFFER :: byte where "OP_BUFFER = 66"
definition OP_NP_SCALAR :: byte where "OP_NP_SCALAR = 83"
definition OP_NP_ARRAY :: byte where "OP_NP_ARRAY = 65"
definition OP_NP_DTYPE :: byte where "OP_NP_DTYPE = 68"

text \<open>The layout and mutability characters \<^verbatim>\<open>'C' 'F' 'A' 'W' 'R'\<close>.\<close>

definition chr_C :: byte where "chr_C = 67"
definition chr_F :: byte where "chr_F = 70"
definition chr_A :: byte where "chr_A = 65"
definition chr_W :: byte where "chr_W = 87"
definition chr_R :: byte where "chr_R = 82"

definition fingerprint_unrecognized :: "world \<Rightarrow> (error + unit) \<times> world" where
  "fingerprint_unrecognized s = (Inl NotImplementedError, s)"

text \<open>\<^verbatim>\<open>return 0\<close> after a sequence of \<^verbatim>\<open>TRY\<close>s.\<close>

definition return_0 :: "world \<Rightarrow> (error + unit) \<times> world" where
  "return_0 s = (Inr (), s)"

text \<open>
  \<^verbatim>\<open>compute_dtype_fingerprint\<close>. The casts are the source's: \<^verbatim>\<open>(char) typenum\<close>
  and \<^verbatim>\<open>(char) md->base\<close> become the \<^verbatim>\<open>unsigned char\<close> argument of
  \<^verbatim>\<open>string_writer_put_char\<close>, and \<^verbatim>\<open>(char) md->num\<close> becomes the
  \<^verbatim>\<open>unsigned int\<close> argument of \<^verbatim>\<open>string_writer_put_int32\<close>: the multiplier is cut
  to its low 8 bits and the \<^verbatim>\<open>char\<close> is then sign-extended.
\<close>

definition compute_dtype_fingerprint :: "addr \<Rightarrow> descr \<Rightarrow> world \<Rightarrow> (error + unit) \<times> world" where
  "compute_dtype_fingerprint w d =
     (let typenum = type_num d in
      if typenum < NPY_OBJECT then string_writer_put_char w (word_of_int typenum)
      else if typenum = NPY_VOID then
        TRY (string_writer_put_char w (word_of_int typenum))
          (string_writer_put_intp w (descr_address d))
      else if PyTypeNum_ISDATETIME typenum then
        TRY (string_writer_put_char w (word_of_int typenum))
          (TRY (string_writer_put_char w (word_of_int (md_base d)))
             (string_writer_put_int32 w (scast (word_of_int (md_num d) :: 8 word))))
      else fingerprint_unrecognized)"

text \<open>
  \<^verbatim>\<open>compute_fingerprint\<close>, with the loop over the items of a tuple as the second
  function. The checks are applied in the order of the source.
\<close>

function compute_fingerprint :: "addr \<Rightarrow> pyobject \<Rightarrow> world \<Rightarrow> (error + unit) \<times> world"
  and compute_fingerprint_items :: "addr \<Rightarrow> pyobject list \<Rightarrow> world \<Rightarrow> (error + unit) \<times> world"
where
  "compute_fingerprint w val =
     (if val = VNone then string_writer_put_char w OP_NONE
      else if PyBool_Check val then string_writer_put_char w OP_BOOL
      else if PyInt_Check val \<or> PyLong_Check val then string_writer_put_char w OP_INT
      else if PyFloat_Check val then string_writer_put_char w OP_FLOAT
      else if PyComplex_CheckExact val then string_writer_put_char w OP_COMPLEX
      else if PyTuple_Check val then
        TRY (string_writer_put_char w OP_START_TUPLE)
          (TRY (compute_fingerprint_items w (PyTuple_items val))
             (TRY (string_writer_put_char w OP_END_TUPLE) return_0))
      else if PyBytes_Check val then string_writer_put_char w OP_BYTES
      else if PyByteArray_Check val then string_writer_put_char w OP_BYTEARRAY
      else if PyArray_IsScalar_Generic val then
        (case PyArray_DescrFromScalar val of
           None \<Rightarrow> (\<lambda>s. (Inl HostError, s))
         | Some d \<Rightarrow>
             TRY (string_writer_put_char w OP_NP_SCALAR)
               (TRY (compute_dtype_fingerprint w d) return_0))
      else if PyArray_Check val then
        (case val of
           VArray ary \<Rightarrow>
             TRY (string_writer_put_char w OP_NP_ARRAY)
               (TRY (string_writer_put_int32 w (word_of_int (ary_ndim ary)))
                  (TRY (if PyArray_IS_C_CONTIGUOUS ary then string_writer_put_char w chr_C
                        else if PyArray_IS_F_CONTIGUOUS ary then string_writer_put_char w chr_F
                        else string_writer_put_char w chr_A)
                     (TRY (if PyArray_ISWRITEABLE ary then string_writer_put_char w chr_W
                           else string_writer_put_char w chr_R)
                        (compute_dtype_fingerprint w (ary_descr ary)))))
         | _ \<Rightarrow> fingerprint_unrecognized)
      else if PyObject_CheckBuffer val then
        (case (case PyObject_GetBuffer val True of
                 Some view \<Rightarrow> Some view
               | None \<Rightarrow> PyObject_GetBuffer val False) of
           None \<Rightarrow> fingerprint_unrecognized
         | Some view \<Rightarrow>
             (let contig = (if buf_c_contiguous view then chr_C
                            else if buf_f_contiguous view then chr_F
                            else chr_A);
                  ndim = buf_ndim view;
                  ro = (if readonly view then chr_R else chr_W)
              in TRY (string_writer_put_char w OP_BUFFER)
                   (TRY (string_writer_put_int32 w (word_of_int ndim))
                      (TRY (string_writer_put_char w contig)
                         (TRY (string_writer_put_char w ro)
                            (TRY (string_writer_put_string w (format view))
                               (string_writer_put_intp w (Py_TYPE val))))))))
      else if PyArray_DescrCheck val then
        (case val of
           VDtype d \<Rightarrow>
             TRY (string_writer_put_char w OP_NP_DTYPE) (compute_dtype_fingerprint w d)
         | _ \<Rightarrow> fingerprint_unrecognized)
      else fingerprint_unrecognized)"
| "compute_fingerprint_items w [] = return_0"
| "compute_fingerprint_items w (item # items) =
     TRY (compute_fingerprint w item) (compute_fingerprint_items w items)"
  by pat_completeness auto
termination
  by (relation "measure (\<lambda>x. case x of Inl (w, val) \<Rightarrow> size val
                                     | Inr (w, items) \<Rightarrow> size_list size items)")
     (auto elim: PyTuple_Check.elims)

declare compute_fingerprint.simps [simp del]

text \<open>
  \<^verbatim>\<open>typeof_compute_fingerprint\<close> with its local writer at address \<open>w\<close>: the bytes
  object made from \<^verbatim>\<open>w.buf\<close> and \<^verbatim>\<open>w.n\<close>, or the exception.
\<close>

definition fingerprint_bytes :: "world \<Rightarrow> addr \<Rightarrow> byte list" where
  "fingerprint_bytes s w = take (n (writers s w)) (load s (buf (writers s w)))"

definition typeof_compute_fingerprint :: "addr \<Rightarrow> pyobject \<Rightarrow> world \<Rightarrow> (error + byte list) \<times> world" where
  "typeof_compute_fingerprint w val s =
     (case compute_fingerprint w val (string_writer_init w s) of
        (Inl e, s1) \<Rightarrow> (Inl e, string_writer_clear w s1)
      | (Inr u, s1) \<Rightarrow> (Inr (fingerprint_bytes s1 w), string_writer_clear w s1))"

subsection \<open>The resolver\<close>

text \<open>
  The resolver is the Python method \<^verbatim>\<open>typeof_pyval\<close> of the dispatcher followed by
  the read of \<^verbatim>\<open>_code\<close>: an exception, or the typecode as a C \<^verbatim>\<open>int\<close>.
  \<^verbatim>\<open>_typecode_fallback\<close> (here \<open>typecode_fallback_inner\<close>, a name cannot start with an
  underscore) returns -1 with the exception set, or the typecode.
\<close>

type_synonym resolver = "pyobject \<Rightarrow> error + int"

definition typecode_fallback_inner ::
  "resolver \<Rightarrow> pyobject \<Rightarrow> bool \<Rightarrow> world \<Rightarrow> (error + int) \<times> world" where
  "typecode_fallback_inner dispatcher val retain_reference s =
     (dispatcher val, s\<lparr>resolver_calls := resolver_calls s @ [(val, retain_reference)]\<rparr>)"

definition typecode_fallback :: "resolver \<Rightarrow> pyobject \<Rightarrow> world \<Rightarrow> (error + int) \<times> world" where
  "typecode_fallback dispatcher val = typecode_fallback_inner dispatcher val False"

definition typecode_fallback_keep_ref ::
  "resolver \<Rightarrow> pyobject \<Rightarrow> world \<Rightarrow> (error + int) \<times> world" where
  "typecode_fallback_keep_ref dispatcher val = typecode_fallback_inner dispatcher val True"

subsection \<open>The fingerprint hash table\<close>

text \<open>
  \<^verbatim>\<open>hash_writer\<close>: the FNV variant of Python 2 over the \<^verbatim>\<open>n\<close> bytes at
  \<^verbatim>\<open>writer->buf\<close>, in \<^verbatim>\<open>Py_uhash_t\<close> arithmetic.
\<close>

definition hash_writer :: "world \<Rightarrow> addr \<Rightarrow> 64 word" where
  "hash_writer s k =
     (if 0 < n (writers s k) then
        let p = take (n (writers s k)) (load s (buf (writers s k)));
            x0 = 0 XOR push_bit 7 (ucast (hd p));
            x1 = foldl (\<lambda>x c. (1000003 * x) XOR ucast c) x0 p;
            x2 = x1 XOR of_nat (n (writers s k))
        in if x2 = - 1 then - 2 else x2
      else 0)"

text \<open>
  \<^verbatim>\<open>compare_writer\<close>: \<open>v\<close> is the key looked up, \<open>w\<close> the key of the entry. Both
  buffers are read through the \<^verbatim>\<open>buf\<close> pointers, whatever they designate now.
\<close>

definition compare_writer :: "world \<Rightarrow> addr \<Rightarrow> addr \<Rightarrow> bool" where
  "compare_writer s v w =
     (if n (writers s v) = n (writers s w)
      then take (n (writers s v)) (load s (buf (writers s v)))
         = take (n (writers s v)) (load s (buf (writers s w)))
      else False)"

text \<open>
  Modelled from the spec: the hash table itself (\<^verbatim>\<open>_hashtable.h\<close>,
  \<^verbatim>\<open>_Py_hashtable_new\<close>, \<^verbatim>\<open>_Py_HASHTABLE_GET\<close>, \<^verbatim>\<open>_Py_HASHTABLE_SET\<close>) is not among
  the source files. The spec has a table from fingerprints to typecodes that is
  looked up by the content hash and then by (length, byte-content) equality, never
  deletes or updates an entry, and can fail to allocate. The table is created with
  \<^verbatim>\<open>hash_writer\<close> and \<^verbatim>\<open>compare_writer\<close>, so these are the hash and the equality:
  an entry matches when the hash stored with it is the hash of the key looked up
  and \<^verbatim>\<open>compare_writer\<close> accepts it. The newest entry is tried first. Creating the
  table and adding an entry each take one answer of the allocator.
\<close>

definition Py_hashtable_new :: "world \<Rightarrow> bool \<times> world" where
  "Py_hashtable_new s =
     (case allocator s of
        [] \<Rightarrow> (False, s)
      | Refuse # rest \<Rightarrow> (False, s\<lparr>allocator := rest\<rparr>)
      | Grant b junk # rest \<Rightarrow> (True, s\<lparr>allocator := rest, fingerprint_hashtable := Some []\<rparr>))"

definition Py_HASHTABLE_GET :: "world \<Rightarrow> addr \<Rightarrow> int option" where
  "Py_HASHTABLE_GET s k =
     (case fingerprint_hashtable s of
        None \<Rightarrow> None
      | Some entries \<Rightarrow>
          map_option data
            (find (\<lambda>e. key_hash e = hash_writer s k \<and> compare_writer s k (key e)) entries))"

definition Py_HASHTABLE_SET :: "addr \<Rightarrow> int \<Rightarrow> world \<Rightarrow> bool \<times> world" where
  "Py_HASHTABLE_SET k typecode s =
     (case allocator s of
        [] \<Rightarrow> (False, s)
      | Refuse # rest \<Rightarrow> (False, s\<lparr>allocator := rest\<rparr>)
      | Grant b junk # rest \<Rightarrow>
          (True, s\<lparr>allocator := rest,
                   fingerprint_hashtable :=
                     Some (\<lparr>key_hash = hash_writer s k, key = k, data = typecode\<rparr>
                           # (case fingerprint_hashtable s of None \<Rightarrow> [] | Some entries \<Rightarrow> entries))\<rparr>))"

text \<open>
  \<^verbatim>\<open>malloc(sizeof(string_writer_t))\<close>: the address of the new struct, or \<open>None\<close>
  for a null pointer.
\<close>

definition malloc_string_writer_t :: "world \<Rightarrow> addr option \<times> world" where
  "malloc_string_writer_t s =
     (case allocator s of
        [] \<Rightarrow> (None, s)
      | Refuse # rest \<Rightarrow> (None, s\<lparr>allocator := rest\<rparr>)
      | Grant b junk # rest \<Rightarrow> (Some b, s\<lparr>allocator := rest\<rparr>))"

text \<open>
  \<^verbatim>\<open>memcpy(key, &w, sizeof(string_writer_t))\<close>: the struct at \<open>k\<close> becomes a copy of
  the struct at \<open>w\<close>, field by field, the pointer \<^verbatim>\<open>buf\<close> as it is.
\<close>

definition memcpy_string_writer_t :: "addr \<Rightarrow> addr \<Rightarrow> world \<Rightarrow> world" where
  "memcpy_string_writer_t k w s = s\<lparr>writers := (writers s)(k := writers s w)\<rparr>"

text \<open>
  The first block of \<^verbatim>\<open>typecode_using_fingerprint\<close>: the table is created when
  the static pointer is still \<^verbatim>\<open>NULL\<close>. The boolean says whether there is a table
  afterwards.
\<close>

definition ensure_fingerprint_hashtable :: "world \<Rightarrow> bool \<times> world" where
  "ensure_fingerprint_hashtable s =
     (if fingerprint_hashtable s = None then Py_hashtable_new s else (True, s))"

text \<open>
  \<^verbatim>\<open>typecode_using_fingerprint\<close>, its local \<^verbatim>\<open>string_writer_t w\<close> being at the
  address \<open>w\<close> of the stack. The result is the returned \<^verbatim>\<open>int\<close>, or the exception
  set when the function returns -1.
\<close>

definition typecode_using_fingerprint ::
  "resolver \<Rightarrow> addr \<Rightarrow> pyobject \<Rightarrow> world \<Rightarrow> (error + int) \<times> world" where
  "typecode_using_fingerprint dispatcher w val s =
     (case ensure_fingerprint_hashtable s of
        (False, s0) \<Rightarrow> (Inl MemoryError, s0)
      | (True, s0) \<Rightarrow>
          (case compute_fingerprint w val (string_writer_init w s0) of
             (Inl e, s1) \<Rightarrow>
               (let s2 = string_writer_clear w s1 in
                if e = NotImplementedError then typecode_fallback dispatcher val s2
                else (Inl e, s2))
           | (Inr u, s1) \<Rightarrow>
               (case Py_HASHTABLE_GET s1 w of
                  Some typecode \<Rightarrow> (Inr typecode, string_writer_clear w s1)
                | None \<Rightarrow>
                    (case typecode_fallback_keep_ref dispatcher val s1 of
                       (Inl e, s2) \<Rightarrow> (Inl e, s2)
                     | (Inr typecode, s2) \<Rightarrow>
                         if 0 \<le> typecode then
                           (case malloc_string_writer_t s2 of
                              (None, s3) \<Rightarrow> (Inl MemoryError, string_writer_clear w s3)
                            | (Some k, s3) \<Rightarrow>
                                (case Py_HASHTABLE_SET k typecode (memcpy_string_writer_t k w s3) of
                                   (False, s4) \<Rightarrow> (Inl MemoryError, string_writer_clear w s4)
                                 | (True, s4) \<Rightarrow> (Inr typecode, s4)))
                         else (Inr typecode, s2)))))"

subsection \<open>The direct lookup table for arrays\<close>

definition N_DTYPES :: int where "N_DTYPES = 12"
definition N_NDIM :: int where "N_NDIM = 5"
definition N_LAYOUT :: int where "N_LAYOUT = 3"

definition dtype_num_to_typecode :: "int \<Rightarrow> int" where
  "dtype_num_to_typecode t =
     (if t = NPY_INT8 then 0
      else if t = NPY_INT16 then 1
      else if t = NPY_INT32 then 2
      else if t = NPY_INT64 then 3
      else if t = NPY_UINT8 then 4
      else if t = NPY_UINT16 then 5
      else if t = NPY_UINT32 then 6
      else if t = NPY_UINT64 then 7
      else if t = NPY_FLOAT32 then 8
      else if t = NPY_FLOAT64 then 9
      else if t = NPY_COMPLEX64 then 10
      else if t = NPY_COMPLEX128 then 11
      else - 1)"

text \<open>
  \<^verbatim>\<open>typecode_ndarray\<close>. The slot \<^verbatim>\<open>cached_arycode[ndim - 1][layout][dtype]\<close> is
  read and written only after the two tests that send the other arrays to
  \<^verbatim>\<open>FALLBACK\<close>, so its indices are in range. What the resolver returned is
  stored in the slot as it is, -1 for an exception.
\<close>

definition typecode_ndarray ::
  "resolver \<Rightarrow> addr \<Rightarrow> pyarray \<Rightarrow> world \<Rightarrow> (error + int) \<times> world" where
  "typecode_ndarray dispatcher w ary s =
     (let ndim = ary_ndim ary;
          layout = (if PyArray_ISCARRAY ary then 1
                    else if PyArray_ISFARRAY ary then 2
                    else 0)
      in if ndim \<le> 0 \<or> N_NDIM < ndim
         then typecode_using_fingerprint dispatcher w (VArray ary) s
         else
           let dtype = dtype_num_to_typecode (PyArray_TYPE ary)
           in if dtype = - 1
              then typecode_using_fingerprint dispatcher w (VArray ary) s
              else
                let slot = (nat (ndim - 1), layout, nat dtype);
                    typecode = cached_arycode s slot
                in if typecode = - 1
                   then (case typecode_fallback_keep_ref dispatcher (VArray ary) s of
                           (r, s1) \<Rightarrow>
                             (r, s1\<lparr>cached_arycode := (cached_arycode s1)
                                      (slot := (case r of Inl e \<Rightarrow> - 1 | Inr c \<Rightarrow> c))\<rparr>))
                   else (Inr typecode, s))"

definition typeof_typecode ::
  "resolver \<Rightarrow> addr \<Rightarrow> pyobject \<Rightarrow> world \<Rightarrow> (error + int) \<times> world" where
  "typeof_typecode dispatcher w val s =
     (case val of
        VArray ary \<Rightarrow> typecode_ndarray dispatcher w ary s
      | _ \<Rightarrow> typecode_using_fingerprint dispatcher w val s)"

text \<open>
  The part of \<^verbatim>\<open>typeof_init\<close> that the caches depend on:
  \<^verbatim>\<open>memset(cached_arycode, 0xFF, sizeof(cached_arycode))\<close> makes every slot -1.
  The static \<^verbatim>\<open>fingerprint_hashtable\<close> starts as \<^verbatim>\<open>NULL\<close>, which \<open>boot\<close> gives:
  the memory of a process that has made no call yet, with the allocator's answers.
\<close>

definition typeof_init :: "world \<Rightarrow> world" where
  "typeof_init s = s\<lparr>cached_arycode := (\<lambda>slot. - 1)\<rparr>"

definition boot :: "alloc_answer list \<Rightarrow> world" where
  "boot answers =
     typeof_init
       \<lparr>writers = (\<lambda>a. \<lparr>buf = Null, n = 0, allocated = 0, static_buf = []\<rparr>),
        heap = (\<lambda>b. []),
        allocator = answers,
        fingerprint_hashtable = None,
        cached_arycode = (\<lambda>slot. 0),
        resolver_calls = []\<rparr>"

section \<open>Concrete runs\<close>

text \<open>
  The values, resolvers and call sequences at which the properties below evaluate
  the code. A call sequence threads the world from one call to the next; each call
  is given the stack address of its local writer.
\<close>

definition tuple_of_ints :: "nat \<Rightarrow> pyobject" where
  "tuple_of_ints k = VTuple (replicate k VInt)"

definition float64_descr :: descr where
  "float64_descr =
     \<lparr>type_num = NPY_FLOAT64, descr_address = 0, native_byteorder = True,
      md_base = 0, md_num = 0\<rparr>"

text \<open>
  A \<^verbatim>\<open>datetime64\<close> dtype with unit code 7 and the given
  multiplier.
\<close>

definition datetime_descr :: "int \<Rightarrow> descr" where
  "datetime_descr m =
     \<lparr>type_num = NPY_DATETIME, descr_address = 0, native_byteorder = True,
      md_base = 7, md_num = m\<rparr>"

text \<open>
  Three arrays of \<^verbatim>\<open>float64\<close>: a writable strided view of rank 1 (neither C nor
  F contiguous), a read-only contiguous array of rank 1, a writable contiguous array
  of the given rank.
\<close>

definition strided_array :: pyarray where
  "strided_array =
     \<lparr>ary_ndim = 1, c_contiguous = False, f_contiguous = False, aligned = True,
      writeable = True, ary_descr = float64_descr\<rparr>"

definition readonly_array :: pyarray where
  "readonly_array =
     \<lparr>ary_ndim = 1, c_contiguous = True, f_contiguous = True, aligned = True,
      writeable = False, ary_descr = float64_descr\<rparr>"

definition plain_array :: "int \<Rightarrow> pyarray" where
  "plain_array rank =
     \<lparr>ary_ndim = rank, c_contiguous = True, f_contiguous = (rank \<le> 1), aligned = True,
      writeable = True, ary_descr = float64_descr\<rparr>"

text \<open>An allocator that grants the next \<open>k\<close> requests, at the addresses 1000, 1001, ...\<close>

definition grants :: "nat \<Rightarrow> alloc_answer list" where
  "grants k = map (\<lambda>i. Grant (1000 + i) []) [0..<k]"

text \<open>A resolver that tells \<open>None\<close> from the other values.\<close>

definition resolver_none_7 :: resolver where
  "resolver_none_7 v = (if v = VNone then Inr 7 else Inr 8)"

text \<open>
  \<open>None\<close> is classified with the writer at stack address 10, then an integer with
  the writer at the same address, then \<open>None\<close> again from a call chain that puts
  the writer at address 20.
\<close>

definition none_at_10 :: "(error + int) \<times> world" where
  "none_at_10 = typeof_typecode resolver_none_7 10 VNone (boot (grants 7))"

definition then_int_at_10 :: "(error + int) \<times> world" where
  "then_int_at_10 = typeof_typecode resolver_none_7 10 VInt (snd none_at_10)"

definition then_none_at_20 :: "(error + int) \<times> world" where
  "then_none_at_20 = typeof_typecode resolver_none_7 20 VNone (snd then_int_at_10)"

text \<open>A resolver that gives the strided array the typecode 100 and every other value 101.\<close>

definition resolver_strided_100 :: resolver where
  "resolver_strided_100 v = (if v = VArray strided_array then Inr 100 else Inr 101)"

text \<open>A resolver whose type objects carry the negative \<^verbatim>\<open>_code\<close> -2.\<close>

definition resolver_minus_2 :: resolver where
  "resolver_minus_2 v = Inr (- 2)"

section \<open>Notions used in the statements\<close>

text \<open>
  A writer that is in its initial shape with \<open>k\<close> bytes written: \<^verbatim>\<open>buf\<close> is its own
  \<^verbatim>\<open>static_buf\<close> of 40 cells.
\<close>

definition inline_writer :: "addr \<Rightarrow> nat \<Rightarrow> world \<Rightarrow> bool" where
  "inline_writer w k s =
     (buf (writers s w) = Static_buf w \<and> allocated (writers s w) = 40
      \<and> length (static_buf (writers s w)) = 40 \<and> n (writers s w) = k)"

text \<open>Two worlds with the same caches and the same log of resolver calls.\<close>

definition same_caches :: "world \<Rightarrow> world \<Rightarrow> bool" where
  "same_caches s t =
     (fingerprint_hashtable t = fingerprint_hashtable s \<and> cached_arycode t = cached_arycode s
      \<and> resolver_calls t = resolver_calls s)"

definition same_allocator :: "world \<Rightarrow> world \<Rightarrow> bool" where
  "same_allocator s t = (allocator t = allocator s)"

text \<open>An operation that leaves the caches alone, and one that never sets
  \<^verbatim>\<open>NotImplementedError\<close>.\<close>

definition keeps :: "(world \<Rightarrow> (error + 'a) \<times> world) \<Rightarrow> bool" where
  "keeps m = (\<forall>s. same_caches s (snd (m s)))"

definition quiet :: "(world \<Rightarrow> (error + 'a) \<times> world) \<Rightarrow> bool" where
  "quiet m = (\<forall>s. fst (m s) \<noteq> Inl NotImplementedError)"

text \<open>
  An operation that, on an inline writer with \<open>k\<close> bytes, succeeds, appends the
  bytes \<open>bs\<close> to the fingerprint and leaves the writer inline; and one that, on an
  inline writer with \<open>k\<close> bytes, sets \<^verbatim>\<open>NotImplementedError\<close>. Neither touches the
  caches or asks the allocator.
\<close>

definition goes_inline ::
  "addr \<Rightarrow> nat \<Rightarrow> byte list \<Rightarrow> (world \<Rightarrow> (error + unit) \<times> world) \<Rightarrow> bool" where
  "goes_inline w k bs m =
     (\<forall>s. inline_writer w k s \<longrightarrow>
        (\<exists>t. m s = (Inr (), t) \<and> inline_writer w (k + length bs) t
           \<and> same_caches s t \<and> same_allocator s t
           \<and> fingerprint_bytes t w = fingerprint_bytes s w @ bs))"

definition stops_inline ::
  "addr \<Rightarrow> nat \<Rightarrow> (world \<Rightarrow> (error + unit) \<times> world) \<Rightarrow> bool" where
  "stops_inline w k m =
     (\<forall>s. inline_writer w k s \<longrightarrow>
        (\<exists>t. m s = (Inl NotImplementedError, t) \<and> same_caches s t \<and> same_allocator s t))"

text \<open>
  The fingerprint of an array, as a list of bytes: the tag, the rank as four
  little-endian bytes, the layout byte by plain contiguity (C before F), the
  mutability byte, and the bytes of the dtype. A dtype has bytes when it is
  elementary (below \<^verbatim>\<open>NPY_OBJECT\<close>), structured (\<^verbatim>\<open>NPY_VOID\<close>: the tag and the
  address of the descr in eight bytes) or temporal (the tag, the unit, and four bytes
  made from the multiplier cut to a \<^verbatim>\<open>char\<close>, as \<^verbatim>\<open>compute_dtype_fingerprint\<close>
  writes them).
\<close>

definition le32 :: "32 word \<Rightarrow> byte list" where
  "le32 v = [ucast (v AND 0xff), ucast (drop_bit 8 v AND 0xff),
             ucast (drop_bit 16 v AND 0xff), ucast (drop_bit 24 v AND 0xff)]"

definition le64 :: "64 word \<Rightarrow> byte list" where
  "le64 v = [ucast (v AND 0xff), ucast (drop_bit 8 v AND 0xff),
             ucast (drop_bit 16 v AND 0xff), ucast (drop_bit 24 v AND 0xff),
             ucast (drop_bit 32 v AND 0xff), ucast (drop_bit 40 v AND 0xff),
             ucast (drop_bit 48 v AND 0xff), ucast (drop_bit 56 v AND 0xff)]"

definition dtype_recognized :: "descr \<Rightarrow> bool" where
  "dtype_recognized d =
     (type_num d < NPY_OBJECT \<or> type_num d = NPY_VOID \<or> PyTypeNum_ISDATETIME (type_num d))"

definition dtype_bytes :: "descr \<Rightarrow> byte list" where
  "dtype_bytes d =
     (if type_num d < NPY_OBJECT then [word_of_int (type_num d)]
      else if type_num d = NPY_VOID then word_of_int (type_num d) # le64 (descr_address d)
      else [word_of_int (type_num d), word_of_int (md_base d)]
           @ le32 (scast (word_of_int (md_num d) :: 8 word)))"

definition array_bytes :: "pyarray \<Rightarrow> byte list" where
  "array_bytes ary =
     [OP_NP_ARRAY] @ le32 (word_of_int (ary_ndim ary))
     @ [if c_contiguous ary then chr_C else if f_contiguous ary then chr_F else chr_A,
        if writeable ary then chr_W else chr_R]
     @ dtype_bytes (ary_descr ary)"

text \<open>The allocator grants the next \<open>k\<close> requests.\<close>

fun granted :: "nat \<Rightarrow> alloc_answer list \<Rightarrow> bool" where
  "granted 0 answers = True"
| "granted (Suc k) [] = False"
| "granted (Suc k) (Refuse # answers) = False"
| "granted (Suc k) (Grant b junk # answers) = granted k answers"

text \<open>Every typecode stored in the hash table is a valid one.\<close>

definition valid_table :: "world \<Rightarrow> bool" where
  "valid_table s =
     (case fingerprint_hashtable s of
        None \<Rightarrow> True
      | Some entries \<Rightarrow> list_all (\<lambda>e. 0 \<le> data e) entries)"

text \<open>
  The 12 elementary kinds of the spec: the signed and unsigned integers of four
  widths, the floats of two widths, the complex numbers of two widths.
\<close>

definition elementary_kinds :: "int set" where
  "elementary_kinds =
     {NPY_INT8, NPY_INT16, NPY_INT32, NPY_INT64, NPY_UINT8, NPY_UINT16, NPY_UINT32,
      NPY_UINT64, NPY_FLOAT32, NPY_FLOAT64, NPY_COMPLEX64, NPY_COMPLEX128}"

section \<open>Properties\<close>

subsection \<open>Auxiliary facts\<close>

lemmas NPY_defs =
  NPY_INT8_def NPY_UINT8_def NPY_INT16_def NPY_UINT16_def NPY_INT32_def NPY_UINT32_def
  NPY_INT64_def NPY_UINT64_def NPY_FLOAT32_def NPY_FLOAT64_def NPY_COMPLEX64_def
  NPY_COMPLEX128_def NPY_OBJECT_def NPY_VOID_def NPY_DATETIME_def NPY_TIMEDELTA_def

lemmas OP_defs =
  OP_START_TUPLE_def OP_END_TUPLE_def OP_INT_def OP_FLOAT_def OP_COMPLEX_def OP_BOOL_def
  OP_BYTEARRAY_def OP_BYTES_def OP_NONE_def OP_BUFFER_def OP_NP_SCALAR_def
  OP_NP_ARRAY_def OP_NP_DTYPE_def

lemmas chr_defs = chr_C_def chr_F_def chr_A_def chr_W_def chr_R_def

lemma length_cells: "length (cells k junk) = k"
  by (simp add: cells_def)

lemma inline_init: "inline_writer w 0 (string_writer_init w s)"
  by (simp add: inline_writer_def string_writer_init_def length_cells)

lemma init_same: "same_caches s (string_writer_init w s)" "same_allocator s (string_writer_init w s)"
  by (simp_all add: same_caches_def same_allocator_def string_writer_init_def)

lemma put_inline:
  assumes "inline_writer w k s" "k + length bs \<le> 40"
  shows "\<exists>t. TRY (string_writer_ensure w (length bs)) (put_bytes w bs) s = (Inr (), t)
           \<and> inline_writer w (k + length bs) t \<and> same_caches s t \<and> same_allocator s t
           \<and> fingerprint_bytes t w = fingerprint_bytes s w @ bs"
  using assms
  by (auto simp: TRY_def string_writer_ensure_def put_bytes_def inline_writer_def
      same_caches_def same_allocator_def fingerprint_bytes_def Let_def)


lemma same_caches_refl: "same_caches s s"
  by (simp add: same_caches_def)

lemma same_caches_trans: "same_caches s t \<Longrightarrow> same_caches t u \<Longrightarrow> same_caches s u"
  by (simp add: same_caches_def)

lemma keeps_TRY: "keeps m \<Longrightarrow> keeps k \<Longrightarrow> keeps (TRY m k)"
  unfolding keeps_def TRY_def
  by (auto split: prod.splits sum.splits intro: same_caches_trans)
    (metis same_caches_trans snd_conv)+

lemma quiet_TRY: "quiet m \<Longrightarrow> quiet k \<Longrightarrow> quiet (TRY m k)"
  unfolding quiet_def TRY_def
  by (auto split: prod.splits sum.splits) (metis fst_conv)+

lemma same_caches_malloc: "same_caches s (snd (malloc sz s))"
  by (simp add: malloc_def same_caches_def split: list.splits alloc_answer.splits)

lemma same_caches_realloc: "same_caches s (snd (realloc p sz s))"
  by (simp add: realloc_def same_caches_def Let_def split: list.splits alloc_answer.splits ptr.splits)

lemma keeps_ensure: "keeps (string_writer_ensure w b)"
proof -
  have "same_caches s (snd (string_writer_ensure w b s))" for s
  proof (cases "buf (writers s w) = Static_buf w")
    case True
    then show ?thesis
      using same_caches_malloc [of s "allocated (writers s w) * 4 + 1"]
      by (cases "malloc (allocated (writers s w) * 4 + 1) s")
         (simp add: string_writer_ensure_def Let_def same_caches_def)
  next
    case False
    then show ?thesis
      using same_caches_realloc [of s "buf (writers s w)" "allocated (writers s w) * 4 + 1"]
      by (cases "realloc (buf (writers s w)) (allocated (writers s w) * 4 + 1) s")
         (simp add: string_writer_ensure_def Let_def same_caches_def)
  qed
  then show ?thesis by (simp add: keeps_def)
qed

lemma quiet_ensure: "quiet (string_writer_ensure w b)"
  unfolding quiet_def string_writer_ensure_def
  by (auto simp: Let_def split: prod.splits)

lemma same_caches_poke: "poke p i bs s = Inr t \<Longrightarrow> same_caches s t"
  by (cases p) (auto simp: same_caches_def Let_def split: if_splits)

lemma keeps_put_bytes: "keeps (put_bytes w bs)"
  unfolding keeps_def put_bytes_def
  by (auto simp: same_caches_def split: sum.splits dest!: same_caches_poke)

lemma poke_error: "poke p i bs s = Inl e \<Longrightarrow> e = BufferOverrun"
  by (cases p) (auto simp: Let_def split: if_splits)

lemma quiet_put_bytes: "quiet (put_bytes w bs)"
  unfolding quiet_def put_bytes_def
  by (auto split: sum.splits dest: poke_error)


lemma keeps_put_char: "keeps (string_writer_put_char w c)"
  by (simp add: string_writer_put_char_def keeps_TRY keeps_ensure keeps_put_bytes)

lemma keeps_put_int32: "keeps (string_writer_put_int32 w v)"
  by (simp add: string_writer_put_int32_def keeps_TRY keeps_ensure keeps_put_bytes)

lemma keeps_put_intp: "keeps (string_writer_put_intp w v)"
  by (simp add: string_writer_put_intp_def keeps_TRY keeps_ensure keeps_put_bytes)

lemma keeps_put_string: "keeps (string_writer_put_string w str)"
  by (cases str)
     (simp_all add: string_writer_put_string_def keeps_TRY keeps_ensure keeps_put_bytes keeps_put_char)

lemma keeps_unrecognized: "keeps fingerprint_unrecognized"
  by (simp add: keeps_def fingerprint_unrecognized_def same_caches_refl)

lemma keeps_return_0: "keeps return_0"
  by (simp add: keeps_def return_0_def same_caches_refl)

lemma keeps_fail: "keeps (\<lambda>s. (Inl e, s))"
  by (simp add: keeps_def same_caches_refl)

lemma keeps_dtype: "keeps (compute_dtype_fingerprint w d)"
  by (simp add: compute_dtype_fingerprint_def Let_def keeps_TRY keeps_put_char keeps_put_intp
      keeps_put_int32 keeps_unrecognized)

lemma quiet_put_char: "quiet (string_writer_put_char w c)"
  by (simp add: string_writer_put_char_def quiet_TRY quiet_ensure quiet_put_bytes)

lemma quiet_put_int32: "quiet (string_writer_put_int32 w v)"
  by (simp add: string_writer_put_int32_def quiet_TRY quiet_ensure quiet_put_bytes)

lemma quiet_put_intp: "quiet (string_writer_put_intp w v)"
  by (simp add: string_writer_put_intp_def quiet_TRY quiet_ensure quiet_put_bytes)

lemma keeps_compute_fingerprint:
  "keeps (compute_fingerprint w val)" "keeps (compute_fingerprint_items w items)"
proof (induction w val and w items rule: compute_fingerprint_compute_fingerprint_items.induct)
  case (1 w val)
  show ?case
    by (subst compute_fingerprint.simps)
       (auto simp: Let_def keeps_TRY keeps_put_char keeps_put_int32 keeps_put_intp
          keeps_put_string keeps_unrecognized keeps_return_0 keeps_fail keeps_dtype "1.IH"
          split: option.splits pyobject.splits)
next
  case (2 w)
  show ?case by (simp add: keeps_return_0)
next
  case (3 w item items)
  then show ?case by (simp add: keeps_TRY)
qed

lemma keeps_clear: "same_caches s (string_writer_clear w s)"
  by (cases "buf (writers s w)") (simp_all add: string_writer_clear_def same_caches_def)


lemma TRY_unrecognized:
  assumes "fst (TRY m k s) = Inl NotImplementedError" "quiet m"
  shows "\<exists>t. fst (k t) = Inl NotImplementedError"
proof (cases "m s")
  case (Pair r t)
  with assms show ?thesis
    by (cases r) (auto simp: TRY_def quiet_def dest: spec [of _ s])
qed

lemma dtype_unrecognized:
  assumes "fst (compute_dtype_fingerprint w d s) = Inl NotImplementedError"
  shows "NPY_OBJECT \<le> type_num d"
proof (rule ccontr)
  assume "\<not> NPY_OBJECT \<le> type_num d"
  then have "compute_dtype_fingerprint w d = string_writer_put_char w (word_of_int (type_num d))"
    by (simp add: compute_dtype_fingerprint_def Let_def)
  with assms quiet_put_char show False
    by (simp add: quiet_def)
qed

lemma quiet_if: "quiet a \<Longrightarrow> quiet b \<Longrightarrow> quiet (if c then a else b)"
  by simp

lemma array_unrecognized:
  assumes "fst (compute_fingerprint w (VArray ary) s) = Inl NotImplementedError"
  shows "dtype_num_to_typecode (PyArray_TYPE ary) = - 1"
proof -
  have eq: "compute_fingerprint w (VArray ary) =
      TRY (string_writer_put_char w OP_NP_ARRAY)
        (TRY (string_writer_put_int32 w (word_of_int (ary_ndim ary)))
           (TRY (if PyArray_IS_C_CONTIGUOUS ary then string_writer_put_char w chr_C
                 else if PyArray_IS_F_CONTIGUOUS ary then string_writer_put_char w chr_F
                 else string_writer_put_char w chr_A)
              (TRY (if PyArray_ISWRITEABLE ary then string_writer_put_char w chr_W
                    else string_writer_put_char w chr_R)
                 (compute_dtype_fingerprint w (ary_descr ary)))))"
    by (subst compute_fingerprint.simps) (simp add: PyLong_Check_def)
  let ?k4 = "compute_dtype_fingerprint w (ary_descr ary)"
  let ?m3 = "if PyArray_ISWRITEABLE ary then string_writer_put_char w chr_W
             else string_writer_put_char w chr_R"
  let ?m2 = "if PyArray_IS_C_CONTIGUOUS ary then string_writer_put_char w chr_C
             else if PyArray_IS_F_CONTIGUOUS ary then string_writer_put_char w chr_F
             else string_writer_put_char w chr_A"
  let ?m1 = "string_writer_put_int32 w (word_of_int (ary_ndim ary))"
  have q2: "quiet ?m2" and q3: "quiet ?m3"
    by (intro quiet_if quiet_put_char)+
  from assms have "fst (TRY (string_writer_put_char w OP_NP_ARRAY)
      (TRY ?m1 (TRY ?m2 (TRY ?m3 ?k4))) s) = Inl NotImplementedError"
    by (simp only: eq)
  then obtain t1 where "fst (TRY ?m1 (TRY ?m2 (TRY ?m3 ?k4)) t1) = Inl NotImplementedError"
    using TRY_unrecognized [OF _ quiet_put_char] by blast
  then obtain t2 where "fst (TRY ?m2 (TRY ?m3 ?k4) t2) = Inl NotImplementedError"
    using TRY_unrecognized [OF _ quiet_put_int32] by blast
  then obtain t3 where "fst (TRY ?m3 ?k4 t3) = Inl NotImplementedError"
    using TRY_unrecognized [OF _ q2] by blast
  then have "\<exists>t. fst (?k4 t) = Inl NotImplementedError"
    using TRY_unrecognized [OF _ q3] by blast
  then obtain t where "fst (compute_dtype_fingerprint w (ary_descr ary) t) = Inl NotImplementedError"
    by blast
  then have "NPY_OBJECT \<le> type_num (ary_descr ary)"
    by (rule dtype_unrecognized)
  then show ?thesis
    by (simp add: dtype_num_to_typecode_def PyArray_TYPE_def NPY_defs)
qed


lemma ensure_table_keeps:
  "cached_arycode (snd (ensure_fingerprint_hashtable s)) = cached_arycode s"
  "resolver_calls (snd (ensure_fingerprint_hashtable s)) = resolver_calls s"
  by (simp_all add: ensure_fingerprint_hashtable_def Py_hashtable_new_def
      split: list.splits alloc_answer.splits)

lemma using_fingerprint_unrecognized:
  assumes table: "fst (ensure_fingerprint_hashtable s)"
    and unrec: "fst (compute_fingerprint w val
                      (string_writer_init w (snd (ensure_fingerprint_hashtable s))))
                = Inl NotImplementedError"
  shows "fst (typecode_using_fingerprint dispatcher w val s) = dispatcher val"
    and "resolver_calls (snd (typecode_using_fingerprint dispatcher w val s))
         = resolver_calls s @ [(val, False)]"
    and "fingerprint_hashtable (snd (typecode_using_fingerprint dispatcher w val s))
         = fingerprint_hashtable (snd (ensure_fingerprint_hashtable s))"
    and "cached_arycode (snd (typecode_using_fingerprint dispatcher w val s)) = cached_arycode s"
proof -
  obtain s0 where e: "ensure_fingerprint_hashtable s = (True, s0)"
    using table by (cases "ensure_fingerprint_hashtable s") auto
  obtain s1 where c: "compute_fingerprint w val (string_writer_init w s0)
                      = (Inl NotImplementedError, s1)"
    using unrec e by (cases "compute_fingerprint w val (string_writer_init w s0)") auto
  have "same_caches (string_writer_init w s0) s1"
    using keeps_compute_fingerprint(1) [of w val] c
    by (auto simp: keeps_def dest: spec [of _ "string_writer_init w s0"])
  then have "same_caches s0 (string_writer_clear w s1)"
    using init_same(1) [of s0 w] keeps_clear [of s1 w] same_caches_trans by blast
  moreover have "typecode_using_fingerprint dispatcher w val s
      = typecode_fallback dispatcher val (string_writer_clear w s1)"
    by (simp add: typecode_using_fingerprint_def e c)
  ultimately show
    "fst (typecode_using_fingerprint dispatcher w val s) = dispatcher val"
    "resolver_calls (snd (typecode_using_fingerprint dispatcher w val s))
         = resolver_calls s @ [(val, False)]"
    "fingerprint_hashtable (snd (typecode_using_fingerprint dispatcher w val s))
         = fingerprint_hashtable (snd (ensure_fingerprint_hashtable s))"
    "cached_arycode (snd (typecode_using_fingerprint dispatcher w val s)) = cached_arycode s"
    using ensure_table_keeps [of s] e
    by (simp_all add: typecode_fallback_def typecode_fallback_inner_def same_caches_def)
qed

lemma typeof_typecode_unrecognized:
  assumes "fst (compute_fingerprint w val s1) = Inl NotImplementedError"
  shows "typeof_typecode dispatcher w val s = typecode_using_fingerprint dispatcher w val s"
proof (cases val)
  case (VArray ary)
  with assms have "dtype_num_to_typecode (PyArray_TYPE ary) = - 1"
    using array_unrecognized by blast
  with VArray show ?thesis
    by (simp add: typeof_typecode_def typecode_ndarray_def Let_def)
qed (simp_all add: typeof_typecode_def)

lemma ensure_table_entries:
  assumes "fst (ensure_fingerprint_hashtable s)"
  shows "fingerprint_hashtable (snd (ensure_fingerprint_hashtable s))
         = Some (case fingerprint_hashtable s of None \<Rightarrow> [] | Some entries \<Rightarrow> entries)"
proof (cases "fingerprint_hashtable s")
  case None
  with assms show ?thesis
    by (simp add: ensure_fingerprint_hashtable_def Py_hashtable_new_def
        split: list.splits alloc_answer.splits)
next
  case (Some entries)
  then show ?thesis
    by (simp add: ensure_fingerprint_hashtable_def)
qed

subsection \<open>Values without a fingerprint\<close>

text \<open>
  C6. For every value whose encoding fails with \<^verbatim>\<open>NotImplementedError\<close> (the
  spec's \<open>Unrecognized\<close>), in a call that has its hash table (it exists already or
  is created): \<^verbatim>\<open>typeof_typecode\<close> returns what the resolver returns for the
  value, so the encoder's error does not reach the caller; the resolver is called
  exactly once, through \<^verbatim>\<open>typecode_fallback\<close>; and nothing is cached: the hash
  table has the entries it had (none when it has just been created) and the direct
  lookup table is as it was. This covers arrays as well: an
  array whose encoding fails has no elementary dtype and is sent to
  \<^verbatim>\<open>typecode_using_fingerprint\<close>.
\<close>

theorem C6_unrecognized_value_goes_to_the_resolver:
  assumes "fst (ensure_fingerprint_hashtable s)"
    and "fst (compute_fingerprint w val
               (string_writer_init w (snd (ensure_fingerprint_hashtable s))))
         = Inl NotImplementedError"
  shows "typeof_typecode dispatcher w val s = typecode_using_fingerprint dispatcher w val s
       \<and> fst (typeof_typecode dispatcher w val s) = dispatcher val
       \<and> resolver_calls (snd (typeof_typecode dispatcher w val s))
           = resolver_calls s @ [(val, False)]
       \<and> fingerprint_hashtable (snd (typeof_typecode dispatcher w val s))
           = Some (case fingerprint_hashtable s of None \<Rightarrow> [] | Some entries \<Rightarrow> entries)
       \<and> cached_arycode (snd (typeof_typecode dispatcher w val s)) = cached_arycode s"
  using using_fingerprint_unrecognized [OF assms, of dispatcher]
    typeof_typecode_unrecognized [OF assms(2), of dispatcher s]
    ensure_table_entries [OF assms(1)]
  by simp

text \<open>The theorem at an opaque value, in the first call of a process.\<close>

theorem C6_witness:
  "fst (ensure_fingerprint_hashtable (boot (grants 2)))
   \<and> fst (compute_fingerprint 10 VOpaque
               (string_writer_init 10 (snd (ensure_fingerprint_hashtable (boot (grants 2))))))
         = Inl NotImplementedError
   \<and> fst (typeof_typecode resolver_none_7 10 VOpaque (boot (grants 2))) = Inr 8
   \<and> resolver_calls (snd (typeof_typecode resolver_none_7 10 VOpaque (boot (grants 2))))
       = [(VOpaque, False)]
   \<and> fingerprint_hashtable (snd (typeof_typecode resolver_none_7 10 VOpaque (boot (grants 2))))
       = Some []"
proof -
  have a: "fst (ensure_fingerprint_hashtable (boot (grants 2)))"
    by code_simp
  have b: "fst (compute_fingerprint 10 VOpaque
               (string_writer_init 10 (snd (ensure_fingerprint_hashtable (boot (grants 2))))))
         = Inl NotImplementedError"
    by code_simp
  have c: "resolver_none_7 VOpaque = Inr 8" "resolver_calls (boot (grants 2)) = []"
    "fingerprint_hashtable (boot (grants 2)) = None"
    by code_simp+
  from C6_unrecognized_value_goes_to_the_resolver [OF a b, of resolver_none_7, THEN conjunct2]
  have "fst (typeof_typecode resolver_none_7 10 VOpaque (boot (grants 2))) = Inr 8"
    "resolver_calls (snd (typeof_typecode resolver_none_7 10 VOpaque (boot (grants 2))))
       = [(VOpaque, False)]"
    "fingerprint_hashtable (snd (typeof_typecode resolver_none_7 10 VOpaque (boot (grants 2))))
       = Some []"
    by (simp_all add: c)
  with a b show ?thesis
    by simp
qed


lemma put_char_inline:
  assumes "inline_writer w k s" "k < 40"
  shows "\<exists>t. string_writer_put_char w c s = (Inr (), t)
           \<and> inline_writer w (k + 1) t \<and> same_caches s t \<and> same_allocator s t
           \<and> fingerprint_bytes t w = fingerprint_bytes s w @ [c]"
  using put_inline [of w k s "[c]"] assms
  by (simp add: string_writer_put_char_def)

lemma fingerprint_single_tag:
  "fst (typeof_compute_fingerprint w val s)
   = (case string_writer_put_char w c (string_writer_init w s) of (r, t) \<Rightarrow> Inr [c])"
  if "compute_fingerprint w val = string_writer_put_char w c"
proof -
  have "fingerprint_bytes (string_writer_init w s) w = []"
    by (simp add: fingerprint_bytes_def string_writer_init_def)
  with put_char_inline [where w = w and s = "string_writer_init w s" and k = 0 and c = c,
      OF inline_init] that show ?thesis
    by (auto simp: typeof_compute_fingerprint_def)
qed

subsection \<open>Booleans and integers\<close>

text \<open>
  C10. Every value \<open>b\<close> that passes \<^verbatim>\<open>PyBool_Check\<close> also passes the integer
  check, and yet the encoder writes \<^verbatim>\<open>OP_BOOL\<close> for it, because the boolean check
  comes first; every value \<open>i\<close> that passes the integer check and is not a boolean
  gets \<^verbatim>\<open>OP_INT\<close>. Their fingerprints are the single bytes \<^verbatim>\<open>?\<close> and
  \<^verbatim>\<open>i\<close>, in every state of the memory, and differ.
\<close>

theorem C10_boolean_tag_is_not_the_integer_tag:
  assumes "PyBool_Check b" and "PyInt_Check i" and "\<not> PyBool_Check i"
  shows "PyInt_Check b
       \<and> compute_fingerprint w b = string_writer_put_char w OP_BOOL
       \<and> compute_fingerprint w i = string_writer_put_char w OP_INT
       \<and> fst (typeof_compute_fingerprint w b s) = Inr [OP_BOOL]
       \<and> fst (typeof_compute_fingerprint w i s) = Inr [OP_INT]
       \<and> fst (typeof_compute_fingerprint w b s) \<noteq> fst (typeof_compute_fingerprint w i s)"
proof -
  from assms(1) have b: "b = VBool"
    by (cases b) simp_all
  have cb: "compute_fingerprint w b = string_writer_put_char w OP_BOOL"
    unfolding b by (subst compute_fingerprint.simps) simp
  have ci: "compute_fingerprint w i = string_writer_put_char w OP_INT"
    using assms(2,3) by (subst compute_fingerprint.simps) (cases i; simp)
  have "OP_BOOL \<noteq> OP_INT"
    by (simp add: OP_defs)
  then show ?thesis
    using fingerprint_single_tag [OF cb, where s = s] fingerprint_single_tag [OF ci, where s = s]
      b cb ci
    by (simp split: prod.splits)
qed

text \<open>The theorem at the boolean and the integer.\<close>

theorem C10_witness:
  "PyBool_Check VBool \<and> PyInt_Check VInt \<and> \<not> PyBool_Check VInt \<and> PyInt_Check VBool
   \<and> fst (typeof_compute_fingerprint 10 VBool (boot [])) = Inr [OP_BOOL]
   \<and> fst (typeof_compute_fingerprint 10 VInt (boot [])) = Inr [OP_INT]"
  using C10_boolean_tag_is_not_the_integer_tag
    [where b = VBool and i = VInt and w = 10 and s = "boot []"]
  by simp


lemma same_allocator_trans: "same_allocator s t \<Longrightarrow> same_allocator t u \<Longrightarrow> same_allocator s u"
  by (simp add: same_allocator_def)

lemma goes_inline_TRY:
  assumes "goes_inline w k bs m" "goes_inline w j bs' m'" "j = k + length bs"
  shows "goes_inline w k (bs @ bs') (TRY m m')"
  unfolding goes_inline_def
proof (intro allI impI)
  fix s assume "inline_writer w k s"
  with assms(1) obtain t where t: "m s = (Inr (), t)" "inline_writer w (k + length bs) t"
    "same_caches s t" "same_allocator s t" "fingerprint_bytes t w = fingerprint_bytes s w @ bs"
    unfolding goes_inline_def by blast
  with assms(2,3) obtain u where u: "m' t = (Inr (), u)" "inline_writer w (j + length bs') u"
    "same_caches t u" "same_allocator t u" "fingerprint_bytes u w = fingerprint_bytes t w @ bs'"
    unfolding goes_inline_def by blast
  from t u assms(3) show "\<exists>u. TRY m m' s = (Inr (), u)
      \<and> inline_writer w (k + length (bs @ bs')) u
      \<and> same_caches s u \<and> same_allocator s u
      \<and> fingerprint_bytes u w = fingerprint_bytes s w @ bs @ bs'"
    by (auto simp: TRY_def add.assoc intro: same_caches_trans same_allocator_trans)
qed

lemma stops_inline_TRY:
  assumes "goes_inline w k bs m" "stops_inline w j m'" "j = k + length bs"
  shows "stops_inline w k (TRY m m')"
  unfolding stops_inline_def
proof (intro allI impI)
  fix s assume "inline_writer w k s"
  with assms(1) obtain t where t: "m s = (Inr (), t)" "inline_writer w (k + length bs) t"
    "same_caches s t" "same_allocator s t"
    unfolding goes_inline_def by blast
  with assms(2,3) obtain u where u: "m' t = (Inl NotImplementedError, u)"
    "same_caches t u" "same_allocator t u"
    unfolding stops_inline_def by blast
  from t u show "\<exists>u. TRY m m' s = (Inl NotImplementedError, u)
      \<and> same_caches s u \<and> same_allocator s u"
    by (auto simp: TRY_def intro: same_caches_trans same_allocator_trans)
qed

lemma goes_put_bytes:
  "length bs = m \<Longrightarrow> k + m \<le> 40 \<Longrightarrow>
   goes_inline w k bs (TRY (string_writer_ensure w m) (put_bytes w bs))"
  unfolding goes_inline_def using put_inline by blast

lemma goes_put_char: "k < 40 \<Longrightarrow> goes_inline w k [c] (string_writer_put_char w c)"
  unfolding string_writer_put_char_def by (rule goes_put_bytes) simp_all

lemma goes_put_int32: "k + 4 \<le> 40 \<Longrightarrow> goes_inline w k (le32 v) (string_writer_put_int32 w v)"
  unfolding string_writer_put_int32_def le32_def by (rule goes_put_bytes) simp_all

lemma goes_put_intp: "k + 8 \<le> 40 \<Longrightarrow> goes_inline w k (le64 v) (string_writer_put_intp w v)"
  unfolding string_writer_put_intp_def le64_def by (rule goes_put_bytes) simp_all

lemma length_le32: "length (le32 v) = 4"
  by (simp add: le32_def)

lemma length_le64: "length (le64 v) = 8"
  by (simp add: le64_def)

lemma length_dtype_bytes: "length (dtype_bytes d) \<le> 9"
  by (simp add: dtype_bytes_def length_le32 length_le64)

lemma goes_dtype:
  assumes "dtype_recognized d" "k + 9 \<le> 40"
  shows "goes_inline w k (dtype_bytes d) (compute_dtype_fingerprint w d)"
proof (cases "type_num d < NPY_OBJECT")
  case True
  then show ?thesis
    using goes_put_char [of k w "word_of_int (type_num d)"] assms(2)
    by (simp add: compute_dtype_fingerprint_def dtype_bytes_def Let_def)
next
  case elementary: False
  show ?thesis
  proof (cases "type_num d = NPY_VOID")
    case True
    have "goes_inline w k ([word_of_int (type_num d)] @ le64 (descr_address d))
        (TRY (string_writer_put_char w (word_of_int (type_num d)))
           (string_writer_put_intp w (descr_address d)))"
      by (rule goes_inline_TRY [OF goes_put_char goes_put_intp]) (use assms(2) in simp_all)
    with elementary True show ?thesis
      by (simp add: compute_dtype_fingerprint_def dtype_bytes_def Let_def)
  next
    case False
    with elementary assms(1) have dt: "PyTypeNum_ISDATETIME (type_num d)"
      by (simp add: dtype_recognized_def)
    have "goes_inline w k
        ([word_of_int (type_num d)] @ [word_of_int (md_base d)]
           @ le32 (scast (word_of_int (md_num d) :: 8 word)))
        (TRY (string_writer_put_char w (word_of_int (type_num d)))
           (TRY (string_writer_put_char w (word_of_int (md_base d)))
              (string_writer_put_int32 w (scast (word_of_int (md_num d) :: 8 word)))))"
      by (rule goes_inline_TRY [OF goes_put_char goes_inline_TRY [OF goes_put_char goes_put_int32]])
         (use assms(2) in simp_all)
    with elementary False dt show ?thesis
      by (simp add: compute_dtype_fingerprint_def dtype_bytes_def Let_def)
  qed
qed

lemma stops_dtype:
  assumes "\<not> dtype_recognized d"
  shows "stops_inline w k (compute_dtype_fingerprint w d)"
  using assms
  by (simp add: dtype_recognized_def compute_dtype_fingerprint_def Let_def stops_inline_def
      fingerprint_unrecognized_def same_caches_def same_allocator_def)

lemma array_encoder:
  "compute_fingerprint w (VArray ary) =
      TRY (string_writer_put_char w OP_NP_ARRAY)
        (TRY (string_writer_put_int32 w (word_of_int (ary_ndim ary)))
           (TRY (string_writer_put_char w
                   (if c_contiguous ary then chr_C else if f_contiguous ary then chr_F else chr_A))
              (TRY (string_writer_put_char w (if writeable ary then chr_W else chr_R))
                 (compute_dtype_fingerprint w (ary_descr ary)))))"
  by (subst compute_fingerprint.simps)
     (simp add: PyLong_Check_def PyArray_IS_C_CONTIGUOUS_def PyArray_IS_F_CONTIGUOUS_def
        PyArray_ISWRITEABLE_def)

lemma goes_array:
  assumes "dtype_recognized (ary_descr ary)"
  shows "goes_inline w 0 (array_bytes ary) (compute_fingerprint w (VArray ary))"
proof -
  let ?lay = "if c_contiguous ary then chr_C else if f_contiguous ary then chr_F else chr_A"
  let ?mut = "if writeable ary then chr_W else chr_R"
  let ?k4 = "compute_dtype_fingerprint w (ary_descr ary)"
  let ?k3 = "TRY (string_writer_put_char w ?mut) ?k4"
  let ?k2 = "TRY (string_writer_put_char w ?lay) ?k3"
  let ?k1 = "TRY (string_writer_put_int32 w (word_of_int (ary_ndim ary))) ?k2"
  have e: "goes_inline w 7 (dtype_bytes (ary_descr ary)) ?k4"
    by (rule goes_dtype [OF assms]) simp
  have d: "goes_inline w 6 ([?mut] @ dtype_bytes (ary_descr ary)) ?k3"
    by (rule goes_inline_TRY [OF goes_put_char e]) simp_all
  have c: "goes_inline w 5 ([?lay] @ [?mut] @ dtype_bytes (ary_descr ary)) ?k2"
    by (rule goes_inline_TRY [OF goes_put_char d]) simp_all
  have b: "goes_inline w 1
      (le32 (word_of_int (ary_ndim ary)) @ [?lay] @ [?mut] @ dtype_bytes (ary_descr ary)) ?k1"
    by (rule goes_inline_TRY [OF goes_put_int32 c]) (simp_all add: length_le32)
  have "goes_inline w 0
      ([OP_NP_ARRAY] @ le32 (word_of_int (ary_ndim ary)) @ [?lay] @ [?mut]
         @ dtype_bytes (ary_descr ary))
      (TRY (string_writer_put_char w OP_NP_ARRAY) ?k1)"
    by (rule goes_inline_TRY [OF goes_put_char b]) simp_all
  then show ?thesis
    by (simp add: array_encoder array_bytes_def)
qed

lemma stops_array:
  assumes "\<not> dtype_recognized (ary_descr ary)"
  shows "stops_inline w 0 (compute_fingerprint w (VArray ary))"
proof -
  let ?lay = "if c_contiguous ary then chr_C else if f_contiguous ary then chr_F else chr_A"
  let ?mut = "if writeable ary then chr_W else chr_R"
  let ?k4 = "compute_dtype_fingerprint w (ary_descr ary)"
  let ?k3 = "TRY (string_writer_put_char w ?mut) ?k4"
  let ?k2 = "TRY (string_writer_put_char w ?lay) ?k3"
  let ?k1 = "TRY (string_writer_put_int32 w (word_of_int (ary_ndim ary))) ?k2"
  have e: "stops_inline w 7 ?k4"
    by (rule stops_dtype [OF assms])
  have d: "stops_inline w 6 ?k3"
    by (rule stops_inline_TRY [OF goes_put_char e]) simp_all
  have c: "stops_inline w 5 ?k2"
    by (rule stops_inline_TRY [OF goes_put_char d]) simp_all
  have b: "stops_inline w 1 ?k1"
    by (rule stops_inline_TRY [OF goes_put_int32 c]) (simp_all add: length_le32)
  have "stops_inline w 0 (TRY (string_writer_put_char w OP_NP_ARRAY) ?k1)"
    by (rule stops_inline_TRY [OF goes_put_char b]) simp_all
  then show ?thesis
    by (simp add: array_encoder)
qed

lemma granted_SucD:
  "granted (Suc k) answers \<Longrightarrow> \<exists>b junk rest. answers = Grant b junk # rest \<and> granted k rest"
  by (cases "(Suc k, answers)" rule: granted.cases) auto

lemma granted_mono: "granted (Suc k) answers \<Longrightarrow> granted k answers"
  by (induction k answers rule: granted.induct) auto

lemma ensure_table_granted:
  assumes "granted (Suc k) (allocator s)" "valid_table s"
  shows "\<exists>s0. ensure_fingerprint_hashtable s = (True, s0) \<and> granted k (allocator s0)
            \<and> valid_table s0 \<and> cached_arycode s0 = cached_arycode s
            \<and> resolver_calls s0 = resolver_calls s
            \<and> fingerprint_hashtable s0
                = Some (case fingerprint_hashtable s of None \<Rightarrow> [] | Some entries \<Rightarrow> entries)"
proof (cases "fingerprint_hashtable s")
  case None
  from granted_SucD [OF assms(1)] obtain b junk rest
    where "allocator s = Grant b junk # rest" "granted k rest" by blast
  with None show ?thesis
    by (simp add: ensure_fingerprint_hashtable_def Py_hashtable_new_def valid_table_def)
next
  case (Some entries)
  with assms granted_mono show ?thesis
    by (simp add: ensure_fingerprint_hashtable_def)
qed

lemma get_in_table:
  assumes "Py_HASHTABLE_GET s k = Some tc" "fingerprint_hashtable s = Some entries"
  shows "tc \<in> data ` set entries"
proof -
  from assms obtain e where
    "find (\<lambda>e. key_hash e = hash_writer s k \<and> compare_writer s k (key e)) entries = Some e"
    "tc = data e"
    by (auto simp: Py_HASHTABLE_GET_def)
  then show ?thesis
    by (auto simp: find_Some_iff)
qed

lemma get_valid:
  assumes "valid_table s" "Py_HASHTABLE_GET s k = Some tc"
  shows "0 \<le> tc"
proof -
  from assms(2) obtain entries where e: "fingerprint_hashtable s = Some entries"
    by (auto simp: Py_HASHTABLE_GET_def split: option.splits)
  from get_in_table [OF assms(2) e] assms(1) e show ?thesis
    by (auto simp: valid_table_def list_all_iff)
qed

lemma get_empty: "fingerprint_hashtable s = Some [] \<Longrightarrow> Py_HASHTABLE_GET s k = None"
  by (simp add: Py_HASHTABLE_GET_def)

lemma array_on_fingerprint_path:
  assumes g: "granted 3 (allocator s)" and r: "dispatcher (VArray ary) = Inr c" "0 \<le> c"
    and v: "valid_table s"
  shows
    "(let R = typecode_using_fingerprint dispatcher w (VArray ary) s;
          before = (case fingerprint_hashtable s of None \<Rightarrow> [] | Some entries \<Rightarrow> entries);
          t = snd (compute_fingerprint w (VArray ary)
                     (string_writer_init w (snd (ensure_fingerprint_hashtable s))))
      in cached_arycode (snd R) = cached_arycode s
         \<and> (if dtype_recognized (ary_descr ary)
            then fingerprint_bytes t w = array_bytes ary
               \<and> (case Py_HASHTABLE_GET t w of
                     Some tc \<Rightarrow>
                       fst R = Inr tc \<and> 0 \<le> tc \<and> tc \<in> data ` set before
                       \<and> resolver_calls (snd R) = resolver_calls s
                       \<and> fingerprint_hashtable (snd R) = Some before
                   | None \<Rightarrow>
                       fst R = Inr c
                       \<and> resolver_calls (snd R) = resolver_calls s @ [(VArray ary, True)]
                       \<and> (\<exists>k. fingerprint_hashtable (snd R)
                                 = Some (\<lparr>key_hash = hash_writer t w, key = k, data = c\<rparr> # before)
                              \<and> fingerprint_bytes (snd R) k = array_bytes ary))
               \<and> (before = [] \<longrightarrow> Py_HASHTABLE_GET t w = None)
            else fst R = Inr c
               \<and> resolver_calls (snd R) = resolver_calls s @ [(VArray ary, False)]
               \<and> fingerprint_hashtable (snd R) = Some before))"
proof -
  let ?before = "case fingerprint_hashtable s of None \<Rightarrow> [] | Some entries \<Rightarrow> entries"
  from g have "granted (Suc 2) (allocator s)"
    by (simp add: eval_nat_numeral)
  from ensure_table_granted [OF this v] obtain s0 where s0:
    "ensure_fingerprint_hashtable s = (True, s0)" "granted 2 (allocator s0)"
    "valid_table s0" "cached_arycode s0 = cached_arycode s"
    "resolver_calls s0 = resolver_calls s" "fingerprint_hashtable s0 = Some ?before"
    by blast
  from s0(2) have "granted (Suc 1) (allocator s0)"
    by (simp add: eval_nat_numeral)
  from granted_SucD [OF this] obtain b1 j1 rest1 where a1:
    "allocator s0 = Grant b1 j1 # rest1" "granted 1 rest1"
    by blast
  from a1(2) obtain b2 j2 rest2 where a2: "rest1 = Grant b2 j2 # rest2"
    using granted_SucD [of 0 rest1] by auto
  let ?i = "string_writer_init w s0"
  have i0: "fingerprint_bytes ?i w = []"
    by (simp add: fingerprint_bytes_def string_writer_init_def)
  show ?thesis
  proof (cases "dtype_recognized (ary_descr ary)")
    case False
    from stops_array [OF False, of w] inline_init [of w s0] obtain t where t:
      "compute_fingerprint w (VArray ary) ?i = (Inl NotImplementedError, t)"
      "same_caches ?i t"
      unfolding stops_inline_def by blast
    have "same_caches s0 (string_writer_clear w t)"
      using t(2) init_same(1) [of s0 w] keeps_clear [of t w] same_caches_trans by blast
    with False t(1) s0 r show ?thesis
      by (simp add: Let_def typecode_using_fingerprint_def typecode_fallback_def
          typecode_fallback_inner_def same_caches_def)
  next
    case True
    from goes_array [OF True, of w] inline_init [of w s0] obtain t where t:
      "compute_fingerprint w (VArray ary) ?i = (Inr (), t)"
      "inline_writer w (0 + length (array_bytes ary)) t"
      "same_caches ?i t" "same_allocator ?i t"
      "fingerprint_bytes t w = fingerprint_bytes ?i w @ array_bytes ary"
      unfolding goes_inline_def by blast
    have caches: "fingerprint_hashtable t = Some ?before"
      "cached_arycode t = cached_arycode s" "allocator t = allocator s0"
      "resolver_calls t = resolver_calls s"
      using t(3,4) init_same [of s0 w] s0
      by (simp_all add: same_caches_def same_allocator_def)
    have bytes: "fingerprint_bytes t w = array_bytes ary"
      using t(5) i0 by simp
    have tt: "snd (compute_fingerprint w (VArray ary)
        (string_writer_init w (snd (ensure_fingerprint_hashtable s)))) = t"
      by (simp add: s0(1) t(1))
    have empty: "?before = [] \<longrightarrow> Py_HASHTABLE_GET t w = None"
      using caches(1) get_empty by simp
    show ?thesis
    proof (cases "Py_HASHTABLE_GET t w")
      case (Some tc)
      have "valid_table t"
        using s0(3,6) caches(1) by (simp add: valid_table_def)
      then have "0 \<le> tc"
        using Some by (rule get_valid)
      moreover have "tc \<in> data ` set ?before"
        using Some caches(1) by (rule get_in_table)
      moreover have "same_caches t (string_writer_clear w t)"
        by (rule keeps_clear)
      ultimately show ?thesis
        using True Some t(1) s0(1) caches bytes empty
        by (simp add: Let_def tt typecode_using_fingerprint_def same_caches_def)
    next
      case None
      have w: "buf (writers t w) = Static_buf w"
        using t(2) by (simp add: inline_writer_def)
      define m where "m = memcpy_string_writer_t b1 w
          (t\<lparr>resolver_calls := resolver_calls t @ [(VArray ary, True)],
             allocator := Grant b2 j2 # rest2\<rparr>)"
      have h: "hash_writer m b1 = hash_writer t w"
        using w by (simp add: m_def hash_writer_def memcpy_string_writer_t_def)
      have m: "resolver_calls m = resolver_calls s @ [(VArray ary, True)]"
        "cached_arycode m = cached_arycode s" "fingerprint_hashtable m = Some ?before"
        "allocator m = Grant b2 j2 # rest2"
        using caches by (simp_all add: m_def memcpy_string_writer_t_def)
      have run: "typecode_using_fingerprint dispatcher w (VArray ary) s
          = (Inr c, m\<lparr>allocator := rest2,
                        fingerprint_hashtable :=
                          Some (\<lparr>key_hash = hash_writer m b1, key = b1, data = c\<rparr>
                                # ?before)\<rparr>)"
        using None t(1) s0(1) r caches a1(1) a2
        by (simp add: m_def typecode_using_fingerprint_def typecode_fallback_keep_ref_def
            typecode_fallback_inner_def malloc_string_writer_t_def memcpy_string_writer_t_def
            Py_HASHTABLE_SET_def)
      have kb: "fingerprint_bytes
          (m\<lparr>allocator := rest2,
              fingerprint_hashtable :=
                Some (\<lparr>key_hash = hash_writer m b1, key = b1, data = c\<rparr> # ?before)\<rparr>) b1
          = array_bytes ary"
        using w bytes by (simp add: m_def fingerprint_bytes_def memcpy_string_writer_t_def)
      show ?thesis
        using True None bytes empty kb m
        by (simp add: Let_def tt run h)
    qed
  qed
qed

lemma elementary_iff: "t \<in> elementary_kinds \<longleftrightarrow> dtype_num_to_typecode t \<noteq> - 1"
  by (simp add: elementary_kinds_def dtype_num_to_typecode_def NPY_defs)

lemma dtype_range: "dtype_num_to_typecode t \<noteq> - 1 \<Longrightarrow>
    0 \<le> dtype_num_to_typecode t \<and> dtype_num_to_typecode t < 12"
  by (simp add: dtype_num_to_typecode_def split: if_splits)

subsection \<open>Which arrays use the direct lookup table\<close>

text \<open>
  C9. For an array whose rank is between 1 and 5 and whose dtype is one of the 12
  elementary kinds, \<^verbatim>\<open>typeof_typecode\<close> works on the slot of the direct lookup
  table alone (the indices are in range): a set slot is returned and the world is
  unchanged; an unset slot is filled with what the resolver returns. For every other
  array (rank 0 or below, rank above 5, or another dtype) the call is
  \<^verbatim>\<open>typecode_using_fingerprint\<close> on the array itself, and it succeeds. When the
  resolver has a valid typecode \<open>c\<close> for the array, the allocator grants the next
  three requests and the table holds valid typecodes, the call leaves the direct
  lookup table alone and does the following. If the dtype has a fingerprint, the
  writer holds the fingerprint of this array, and the table is looked up with it: on
  a hit the call returns the valid typecode stored in the table, without calling the
  resolver and without changing the table; on a miss, which is what happens when the
  table is empty or new, it returns \<open>c\<close>, has called the resolver once on the array
  with the reference retained, and has put in front of the table one entry with the
  typecode \<open>c\<close>, the hash of the fingerprint, and a key that reads as the fingerprint
  of this array. If the dtype has no fingerprint, the call returns \<open>c\<close> from one
  call of the resolver on the array and the table keeps its entries.
\<close>

theorem C9_direct_table_exactly_for_small_elementary_arrays:
  "(if 1 \<le> ary_ndim ary \<and> ary_ndim ary \<le> 5 \<and> PyArray_TYPE ary \<in> elementary_kinds
    then
      (let slot = (nat (ary_ndim ary - 1),
                   if PyArray_ISCARRAY ary then 1 else if PyArray_ISFARRAY ary then 2 else 0,
                   nat (dtype_num_to_typecode (PyArray_TYPE ary)))
       in fst slot < 5 \<and> fst (snd slot) < 3 \<and> snd (snd slot) < 12
          \<and> typeof_typecode dispatcher w (VArray ary) s
            = (if cached_arycode s slot = - 1
               then (dispatcher (VArray ary),
                     s\<lparr>resolver_calls := resolver_calls s @ [(VArray ary, True)],
                       cached_arycode := (cached_arycode s)
                         (slot := (case dispatcher (VArray ary) of Inl e \<Rightarrow> - 1 | Inr c \<Rightarrow> c))\<rparr>)
               else (Inr (cached_arycode s slot), s)))
    else typeof_typecode dispatcher w (VArray ary) s
         = typecode_using_fingerprint dispatcher w (VArray ary) s)
   \<and> (\<not> (1 \<le> ary_ndim ary \<and> ary_ndim ary \<le> 5 \<and> PyArray_TYPE ary \<in> elementary_kinds)
        \<and> granted 3 (allocator s) \<and> valid_table s
        \<and> dispatcher (VArray ary) = Inr c \<and> 0 \<le> c
      \<longrightarrow> (\<exists>tc. fst (typeof_typecode dispatcher w (VArray ary) s) = Inr tc \<and> 0 \<le> tc)
          \<and> (let R = typeof_typecode dispatcher w (VArray ary) s;
                  before = (case fingerprint_hashtable s of None \<Rightarrow> [] | Some entries \<Rightarrow> entries);
                  t = snd (compute_fingerprint w (VArray ary)
                             (string_writer_init w (snd (ensure_fingerprint_hashtable s))))
              in cached_arycode (snd R) = cached_arycode s
                 \<and> (if dtype_recognized (ary_descr ary)
                    then fingerprint_bytes t w = array_bytes ary
                       \<and> (case Py_HASHTABLE_GET t w of
                             Some tc \<Rightarrow>
                               fst R = Inr tc \<and> 0 \<le> tc \<and> tc \<in> data ` set before
                               \<and> resolver_calls (snd R) = resolver_calls s
                               \<and> fingerprint_hashtable (snd R) = Some before
                           | None \<Rightarrow>
                               fst R = Inr c
                               \<and> resolver_calls (snd R) = resolver_calls s @ [(VArray ary, True)]
                               \<and> (\<exists>k. fingerprint_hashtable (snd R)
                                         = Some (\<lparr>key_hash = hash_writer t w, key = k, data = c\<rparr>
                                                 # before)
                                      \<and> fingerprint_bytes (snd R) k = array_bytes ary))
                       \<and> (before = [] \<longrightarrow> Py_HASHTABLE_GET t w = None)
                    else fst R = Inr c
                       \<and> resolver_calls (snd R) = resolver_calls s @ [(VArray ary, False)]
                       \<and> fingerprint_hashtable (snd R) = Some before)))"
proof (cases "1 \<le> ary_ndim ary \<and> ary_ndim ary \<le> 5 \<and> PyArray_TYPE ary \<in> elementary_kinds")
  case True
  then have d: "dtype_num_to_typecode (PyArray_TYPE ary) \<noteq> - 1"
    by (simp add: elementary_iff)
  from dtype_range [OF d] True d show ?thesis
    by (auto simp: typeof_typecode_def typecode_ndarray_def Let_def N_NDIM_def
        typecode_fallback_keep_ref_def typecode_fallback_inner_def)
next
  case False
  then have eq: "typeof_typecode dispatcher w (VArray ary) s
      = typecode_using_fingerprint dispatcher w (VArray ary) s"
    by (auto simp: typeof_typecode_def typecode_ndarray_def Let_def N_NDIM_def elementary_iff)
  have "\<exists>tc. fst (typecode_using_fingerprint dispatcher w (VArray ary) s) = Inr tc \<and> 0 \<le> tc"
    if "granted 3 (allocator s)" "valid_table s" "dispatcher (VArray ary) = Inr c" "0 \<le> c"
    using array_on_fingerprint_path [where s = s and dispatcher = dispatcher and ary = ary
        and c = c and w = w] that
    by (auto simp: Let_def split: if_splits option.splits)
  then show ?thesis
    unfolding if_not_P [OF False] eq
    using array_on_fingerprint_path [of s dispatcher ary c w] by blast
qed

text \<open>
  The theorem at a contiguous \<^verbatim>\<open>float64\<close> array of rank 8 in a process that has
  made no call yet: the call goes through the fingerprint path, returns the
  resolver's typecode 8 after one call of the resolver on the array, and leaves a
  table of one entry whose key reads as the fingerprint of the array. And at an
  array of rank 1, which goes through the table.
\<close>

theorem C9_witness:
  "\<not> (1 \<le> ary_ndim (plain_array 8) \<and> ary_ndim (plain_array 8) \<le> 5
        \<and> PyArray_TYPE (plain_array 8) \<in> elementary_kinds)
   \<and> PyArray_TYPE (plain_array 8) \<in> elementary_kinds
   \<and> granted 3 (allocator (boot (grants 3))) \<and> valid_table (boot (grants 3))
   \<and> resolver_none_7 (VArray (plain_array 8)) = Inr 8
   \<and> typeof_typecode resolver_none_7 10 (VArray (plain_array 8)) (boot (grants 3))
       = typecode_using_fingerprint resolver_none_7 10 (VArray (plain_array 8)) (boot (grants 3))
   \<and> fst (typeof_typecode resolver_none_7 10 (VArray (plain_array 8)) (boot (grants 3))) = Inr 8
   \<and> resolver_calls
        (snd (typeof_typecode resolver_none_7 10 (VArray (plain_array 8)) (boot (grants 3))))
       = [(VArray (plain_array 8), True)]
   \<and> (\<exists>k h. fingerprint_hashtable
                (snd (typeof_typecode resolver_none_7 10 (VArray (plain_array 8))
                        (boot (grants 3))))
              = Some [\<lparr>key_hash = h, key = k, data = 8\<rparr>]
            \<and> fingerprint_bytes
                (snd (typeof_typecode resolver_none_7 10 (VArray (plain_array 8))
                        (boot (grants 3)))) k
              = [OP_NP_ARRAY, 8, 0, 0, 0, chr_C, chr_W, 12])
   \<and> (1 \<le> ary_ndim (plain_array 1) \<and> ary_ndim (plain_array 1) \<le> 5
        \<and> PyArray_TYPE (plain_array 1) \<in> elementary_kinds)
   \<and> fst (typeof_typecode resolver_none_7 10 (VArray (plain_array 1)) (boot [])) = Inr 8"
proof -
  have a: "ary_ndim (plain_array 8) = 8" "ary_ndim (plain_array 1) = 1"
    by (simp_all add: plain_array_def)
  have b: "PyArray_TYPE (plain_array 8) \<in> elementary_kinds"
    "PyArray_TYPE (plain_array 1) \<in> elementary_kinds"
    by (simp_all add: plain_array_def PyArray_TYPE_def float64_descr_def elementary_kinds_def)
  have c: "granted 3 (allocator (boot (grants 3)))" "valid_table (boot (grants 3))"
    "resolver_none_7 (VArray (plain_array 8)) = Inr 8"
    "resolver_none_7 (VArray (plain_array 1)) = Inr 8"
    by code_simp+
  have d: "cached_arycode (boot []) (nat (ary_ndim (plain_array 1) - 1),
        if PyArray_ISCARRAY (plain_array 1) then 1
        else if PyArray_ISFARRAY (plain_array 1) then 2 else 0,
        nat (dtype_num_to_typecode (PyArray_TYPE (plain_array 1)))) = - 1"
    by (simp add: boot_def typeof_init_def)
  have e: "dtype_recognized (ary_descr (plain_array 8))"
    "fingerprint_hashtable (boot (grants 3)) = None" "resolver_calls (boot (grants 3)) = []"
    "array_bytes (plain_array 8) = [OP_NP_ARRAY, 8, 0, 0, 0, chr_C, chr_W, 12]"
    by code_simp+
  have hyps: "\<not> (1 \<le> ary_ndim (plain_array 8) \<and> ary_ndim (plain_array 8) \<le> 5
        \<and> PyArray_TYPE (plain_array 8) \<in> elementary_kinds)
      \<and> granted 3 (allocator (boot (grants 3))) \<and> valid_table (boot (grants 3))
      \<and> resolver_none_7 (VArray (plain_array 8)) = Inr 8 \<and> (0::int) \<le> 8"
    using a c by simp
  note at_8 = C9_direct_table_exactly_for_small_elementary_arrays
        [where ary = "plain_array 8" and s = "boot (grants 3)" and dispatcher = resolver_none_7
           and w = 10 and c = 8]
  from at_8 [THEN conjunct2, THEN mp, OF hyps, THEN conjunct2]
  have on_path:
    "fst (typeof_typecode resolver_none_7 10 (VArray (plain_array 8)) (boot (grants 3))) = Inr 8"
    "resolver_calls
        (snd (typeof_typecode resolver_none_7 10 (VArray (plain_array 8)) (boot (grants 3))))
       = [(VArray (plain_array 8), True)]"
    "\<exists>k h. fingerprint_hashtable
                (snd (typeof_typecode resolver_none_7 10 (VArray (plain_array 8))
                        (boot (grants 3))))
              = Some [\<lparr>key_hash = h, key = k, data = 8\<rparr>]
            \<and> fingerprint_bytes
                (snd (typeof_typecode resolver_none_7 10 (VArray (plain_array 8))
                        (boot (grants 3)))) k
              = [OP_NP_ARRAY, 8, 0, 0, 0, chr_C, chr_W, 12]"
    by (auto simp: Let_def e)
  from at_8 [THEN conjunct1] a b
  have routed: "typeof_typecode resolver_none_7 10 (VArray (plain_array 8)) (boot (grants 3))
       = typecode_using_fingerprint resolver_none_7 10 (VArray (plain_array 8)) (boot (grants 3))"
    by simp
  from C9_direct_table_exactly_for_small_elementary_arrays
        [where ary = "plain_array 1" and s = "boot []" and dispatcher = resolver_none_7
           and w = 10 and c = 8, THEN conjunct1] a b c d
  have at_1: "fst (typeof_typecode resolver_none_7 10 (VArray (plain_array 1)) (boot [])) = Inr 8"
    by (auto simp: Let_def)
  show ?thesis
    using a b c on_path routed at_1 by simp
qed

subsection \<open>The multiplier of a temporal dtype\<close>

text \<open>
  C4. The claim: for a temporal dtype with time base \<open>b\<close> and multiplier \<open>m\<close> the
  encoder emits the tag byte, \<open>b\<close> as one byte, and \<open>m\<close> as a 4-byte little-endian
  integer holding the full value of \<open>m\<close>. The code casts the multiplier to
  \<^verbatim>\<open>char\<close> before it writes the four bytes. Evaluated on a fresh writer: the
  multipliers 256 and 512 both give four zero bytes (the little-endian bytes of 256
  are 0, 1, 0, 0), so the two dtypes share one fingerprint, and the multiplier 200
  gives 200, 255, 255, 255.
\<close>

theorem C4_multiplier_cut_to_char:
  "fingerprint_bytes
     (snd (compute_dtype_fingerprint 0 (datetime_descr 256) (string_writer_init 0 (boot [])))) 0
     = [21, 7, 0, 0, 0, 0]
   \<and> fingerprint_bytes
     (snd (compute_dtype_fingerprint 0 (datetime_descr 512) (string_writer_init 0 (boot [])))) 0
     = [21, 7, 0, 0, 0, 0]
   \<and> fingerprint_bytes
     (snd (compute_dtype_fingerprint 0 (datetime_descr 200) (string_writer_init 0 (boot [])))) 0
     = [21, 7, 200, 255, 255, 255]"
  by code_simp

subsection \<open>Fingerprints longer than the inline buffer\<close>

text \<open>
  C1. The claim: two values with the same type shape have byte-identical
  fingerprints, also when the fingerprint outgrows the 40 bytes of
  \<^verbatim>\<open>static_buf\<close>. The fingerprint of a tuple of 39 integers has 41 bytes. When
  its last byte is written, \<^verbatim>\<open>string_writer_ensure\<close> replaces \<^verbatim>\<open>static_buf\<close> by
  a fresh block of 161 bytes without copying the 40 bytes already written, so the
  fingerprint is what the block happened to hold, followed by the one byte written
  into it. Two encodings of the same tuple in one process, the allocator handing
  out blocks with different residual bytes, differ.
\<close>

theorem C1_grown_fingerprint_is_residual_memory:
  "fst (typeof_compute_fingerprint 10 (tuple_of_ints 39)
          (boot [Grant 1000 [1, 2, 3], Grant 1001 [7, 7, 7]]))
     = Inr ([1, 2, 3] @ replicate 37 0 @ [OP_END_TUPLE])
   \<and> fst (typeof_compute_fingerprint 10 (tuple_of_ints 39)
          (snd (typeof_compute_fingerprint 10 (tuple_of_ints 39)
                  (boot [Grant 1000 [1, 2, 3], Grant 1001 [7, 7, 7]]))))
     = Inr ([7, 7, 7] @ replicate 37 0 @ [OP_END_TUPLE])"
  by code_simp

text \<open>
  C8. The claim: for every tuple the encoder emits the start marker, the encodings
  of the elements in order and the end marker, so that \<open>(1, (2.0, None))\<close> and
  \<open>((1, 2.0), None)\<close> differ. The two nested tuples are encoded as claimed,
  \<^verbatim>\<open>(i(fn))\<close> and \<^verbatim>\<open>((if)n)\<close>, and so is a tuple of 38 integers, whose
  fingerprint fills the 40 bytes. For a tuple of 39 integers the bytes written
  before the buffer grows are lost: the fingerprint does not start with the start
  marker and holds none of the elements' encodings.
\<close>

theorem C8_tuple_markers_lost_on_growth:
  "fst (typeof_compute_fingerprint 10 (VTuple [VInt, VTuple [VFloat, VNone]]) (boot []))
     = Inr [OP_START_TUPLE, OP_INT, OP_START_TUPLE, OP_FLOAT, OP_NONE, OP_END_TUPLE, OP_END_TUPLE]
   \<and> fst (typeof_compute_fingerprint 10 (VTuple [VTuple [VInt, VFloat], VNone]) (boot []))
     = Inr [OP_START_TUPLE, OP_START_TUPLE, OP_INT, OP_FLOAT, OP_END_TUPLE, OP_NONE, OP_END_TUPLE]
   \<and> fst (typeof_compute_fingerprint 10 (tuple_of_ints 38) (boot []))
     = Inr (OP_START_TUPLE # replicate 38 OP_INT @ [OP_END_TUPLE])
   \<and> fst (typeof_compute_fingerprint 10 (tuple_of_ints 39) (boot [Grant 1000 []]))
     = Inr (replicate 40 0 @ [OP_END_TUPLE])"
  by code_simp

subsection \<open>The key stored in the hash table\<close>

text \<open>
  C5. The claim: the key stored on a miss is an owned copy of the fingerprint bytes
  that stays valid after the call returns, so that a later lookup with the same
  bytes compares equal. After \<open>None\<close> has been classified with the writer at
  address 10, the table holds one entry whose key is the struct at 1001, and the
  \<^verbatim>\<open>buf\<close> of that struct is the \<^verbatim>\<open>static_buf\<close> of the writer at 10, a local
  variable of the call that has returned, not the \<^verbatim>\<open>static_buf\<close> of the key. The
  next call that has its writer at 10 writes the fingerprint of an integer there;
  from then on the stored key reads as that fingerprint, and a writer at address 20
  that holds the fingerprint of \<open>None\<close> does not compare equal to it and is not
  found in the table.
\<close>

theorem C5_stored_key_points_into_the_callers_frame:
  "fingerprint_hashtable (snd none_at_10)
     = Some [\<lparr>key_hash = 14080042351, key = 1001, data = 7\<rparr>]
   \<and> buf (writers (snd none_at_10) 1001) = Static_buf 10
   \<and> fingerprint_bytes (snd none_at_10) 1001 = [OP_NONE]
   \<and> fingerprint_bytes (snd then_int_at_10) 1001 = [OP_INT]
   \<and> fingerprint_bytes
        (snd (compute_fingerprint 20 VNone (string_writer_init 20 (snd then_int_at_10)))) 20
      = [OP_NONE]
   \<and> compare_writer
        (snd (compute_fingerprint 20 VNone (string_writer_init 20 (snd then_int_at_10)))) 20 1001
      = False
   \<and> Py_HASHTABLE_GET
        (snd (compute_fingerprint 20 VNone (string_writer_init 20 (snd then_int_at_10)))) 20
      = None"
  by code_simp

text \<open>
  C2. The claim: of two calls of \<^verbatim>\<open>typeof_typecode\<close> on values with identical
  fingerprint bytes the second hits the cache and does not call the resolver, for
  fingerprints of every length. In the run above both calls on \<open>None\<close> compute the
  one-byte fingerprint \<^verbatim>\<open>n\<close> and both return 7, but the second one misses the
  cache: the resolver is called on \<open>None\<close> twice and the table ends with two
  entries for the same fingerprint.
\<close>

theorem C2_second_call_misses_the_cache:
  "fst none_at_10 = Inr 7
   \<and> resolver_calls (snd none_at_10) = [(VNone, True)]
   \<and> fst then_none_at_20 = Inr 7
   \<and> resolver_calls (snd then_none_at_20) = [(VNone, True), (VInt, True), (VNone, True)]
   \<and> map data (case fingerprint_hashtable (snd then_none_at_20) of
                  None \<Rightarrow> [] | Some entries \<Rightarrow> entries) = [7, 8, 7]
   \<and> map key_hash (case fingerprint_hashtable (snd then_none_at_20) of
                  None \<Rightarrow> [] | Some entries \<Rightarrow> entries)
      = [14080042351, 13440040424, 14080042351]"
  by code_simp

subsection \<open>The layout class of the direct lookup table\<close>

text \<open>
  C3. The claim: the direct lookup table classifies the layout of an array as the
  encoder does (C if C-contiguous, else F if F-contiguous, else A), so that both
  paths agree on the typecode. \<^verbatim>\<open>typecode_ndarray\<close> tests \<^verbatim>\<open>PyArray_ISCARRAY\<close>
  and \<^verbatim>\<open>PyArray_ISFARRAY\<close>, which also ask for a writable, aligned array. A
  read-only contiguous array therefore takes the slot of layout 0, the slot of the
  arrays that are not contiguous, while the encoder gives it the layout byte
  \<^verbatim>\<open>C\<close> and the mutability byte \<^verbatim>\<open>R\<close>. Once a strided array has filled the
  slot, \<^verbatim>\<open>typeof_typecode\<close> returns the strided array's typecode 100 for the
  read-only contiguous array without calling the resolver; the fingerprint path
  resolves it to 101.
\<close>

theorem C3_readonly_array_takes_the_slot_of_layout_A:
  "fst (typeof_compute_fingerprint 10 (VArray readonly_array) (boot []))
     = Inr [OP_NP_ARRAY, 1, 0, 0, 0, chr_C, chr_R, 12]
   \<and> fst (typeof_compute_fingerprint 10 (VArray strided_array) (boot []))
     = Inr [OP_NP_ARRAY, 1, 0, 0, 0, chr_A, chr_W, 12]
   \<and> fst (typeof_typecode resolver_strided_100 10 (VArray readonly_array)
             (snd (typeof_typecode resolver_strided_100 10 (VArray strided_array)
                     (boot (grants 5)))))
     = Inr 100
   \<and> resolver_calls
        (snd (typeof_typecode resolver_strided_100 10 (VArray readonly_array)
                (snd (typeof_typecode resolver_strided_100 10 (VArray strided_array)
                        (boot (grants 5))))))
     = [(VArray strided_array, True)]
   \<and> fst (typecode_using_fingerprint resolver_strided_100 10 (VArray readonly_array)
             (snd (typecode_using_fingerprint resolver_strided_100 10 (VArray strided_array)
                     (boot (grants 5)))))
     = Inr 101"
  by code_simp

subsection \<open>A negative typecode in the direct lookup table\<close>

text \<open>
  C7. The claim: when the resolver fails or returns a negative typecode on a miss,
  nothing is inserted, and the slot of the direct lookup table still behaves as
  unset, so that a later call asks the resolver again. \<^verbatim>\<open>typecode_ndarray\<close>
  stores what the resolver returned without the test \<^verbatim>\<open>typecode >= 0\<close> that
  \<^verbatim>\<open>typecode_using_fingerprint\<close> makes. With a resolver that returns -2 the slot
  of a writable contiguous \<^verbatim>\<open>float64\<close> array of rank 1 becomes -2, which is not
  the unset value -1: the second call returns -2 from the slot and the resolver has
  been called once. On the fingerprint path (an array of rank 8) the same resolver
  leaves the table empty and is called again by the second call.
\<close>

theorem C7_negative_typecode_is_stored_in_the_slot:
  "cached_arycode (boot []) (0, 1, 9) = - 1
   \<and> fst (typeof_typecode resolver_minus_2 10 (VArray (plain_array 1)) (boot (grants 5)))
     = Inr (- 2)
   \<and> cached_arycode
        (snd (typeof_typecode resolver_minus_2 10 (VArray (plain_array 1)) (boot (grants 5))))
        (0, 1, 9)
     = - 2
   \<and> fst (typeof_typecode resolver_minus_2 10 (VArray (plain_array 1))
             (snd (typeof_typecode resolver_minus_2 10 (VArray (plain_array 1))
                     (boot (grants 5)))))
     = Inr (- 2)
   \<and> resolver_calls
        (snd (typeof_typecode resolver_minus_2 10 (VArray (plain_array 1))
                (snd (typeof_typecode resolver_minus_2 10 (VArray (plain_array 1))
                        (boot (grants 5))))))
     = [(VArray (plain_array 1), True)]
   \<and> fingerprint_hashtable
        (snd (typeof_typecode resolver_minus_2 10 (VArray (plain_array 8)) (boot (grants 5))))
     = Some []
   \<and> resolver_calls
        (snd (typeof_typecode resolver_minus_2 10 (VArray (plain_array 8))
                (snd (typeof_typecode resolver_minus_2 10 (VArray (plain_array 8))
                        (boot (grants 5))))))
     = [(VArray (plain_array 8), True), (VArray (plain_array 8), True)]"
  by code_simp

end
